theory Spec2Isabelle
  imports Complex_Main
begin

section \<open>The jquery-google-analytics plugin (src/jquery.google-analytics.js)\<close>

text \<open>
  The plugin adds three operations to jQuery: \<^verbatim>\<open>$.trackPage\<close>, \<^verbatim>\<open>$.trackEvent\<close> and
  \<^verbatim>\<open>$.fn.track\<close>, with the private helpers \<^verbatim>\<open>init_analytics\<close>, \<^verbatim>\<open>load_script\<close>,
  \<^verbatim>\<open>evaluate\<close> and \<^verbatim>\<open>debug\<close>. Everything the script reads or writes outside its own
  variables (the console, the Google Analytics library, the DOM, jQuery) is made explicit:
  what it reads is a field of the state, what it calls is appended to a trace of effects.
\<close>

subsection \<open>JavaScript values\<close>

text \<open>
  The primitive values: \<^verbatim>\<open>undefined\<close>, \<^verbatim>\<open>null\<close>, the booleans, numbers and strings.
  A number of the model is an integer that a JavaScript number holds exactly, that is, one
  of magnitude below \<open>2^53\<close> (an HTTP status, an event value). A string is the list of its
  characters, each below U+0100.
\<close>

typedef number = "{n :: int. \<bar>n\<bar> < 2 ^ 53}"
  morphisms number_value Number
  by (rule exI [of _ 0]) simp

datatype prim = JUndefined | JNull | JBool bool | JNum number | JStr string

text \<open>Truthiness, as tested by \<^verbatim>\<open>&&\<close>, \<^verbatim>\<open>!\<close> and \<^verbatim>\<open>if\<close>.\<close>

fun truthy :: "prim \<Rightarrow> bool" where
  "truthy JUndefined = False"
| "truthy JNull = False"
| "truthy (JBool b) = b"
| "truthy (JNum n) = (number_value n \<noteq> 0)"
| "truthy (JStr s) = (s \<noteq> [])"

text \<open>
  What string concatenation makes of a number: for an integer below \<open>2^53\<close> in magnitude,
  its decimal numeral. (Beyond that bound JavaScript prints only the digits that identify
  the double, and from \<open>10^21\<close> on the exponent form; those numbers are not in the model.)
\<close>

definition digit_char :: "nat \<Rightarrow> char" where
  "digit_char d = ''0123456789'' ! d"

fun string_of_nat :: "nat \<Rightarrow> string" where
  "string_of_nat n =
     (if n < 10 then [digit_char n]
      else string_of_nat (n div 10) @ [digit_char (n mod 10)])"

declare string_of_nat.simps [simp del]

definition number_to_string :: "number \<Rightarrow> string" where
  "number_to_string n =
     (if number_value n < 0 then CHR ''-'' # string_of_nat (nat (- number_value n))
      else string_of_nat (nat (number_value n)))"

text \<open>What \<^verbatim>\<open>'...' + v\<close> appends for a primitive value \<open>v\<close>.\<close>

fun to_string :: "prim \<Rightarrow> string" where
  "to_string JUndefined = ''undefined''"
| "to_string JNull = ''null''"
| "to_string (JBool b) = (if b then ''true'' else ''false'')"
| "to_string (JNum n) = number_to_string n"
| "to_string (JStr s) = s"

subsection \<open>The number a string converts to\<close>

text \<open>
  \<^verbatim>\<open>==\<close> between a string and a number or a boolean converts the string to a number
  first. The conversion (ECMAScript 2015 and later) strips white space at both ends; the
  empty string is 0; what is left must be a binary, octal or hexadecimal integer with its
  prefix, or an optionally signed \<^verbatim>\<open>Infinity\<close> or decimal literal with optional
  fraction and exponent; anything else is \<^verbatim>\<open>NaN\<close>. A finite result is kept here as
  the exact rational the literal denotes; it is rounded where it is compared with a number
  (\<open>rounds_to\<close> below).
\<close>

definition is_space :: "char \<Rightarrow> bool" where
  "is_space c = (c \<in> {CHR 0x09, CHR 0x0A, CHR 0x0B, CHR 0x0C, CHR 0x0D, CHR 0x20, CHR 0xA0})"

definition trim :: "string \<Rightarrow> string" where
  "trim s = rev (dropWhile is_space (rev (dropWhile is_space s)))"

fun position :: "char \<Rightarrow> string \<Rightarrow> nat option" where
  "position c [] = None"
| "position c (d # ds) = (if c = d then Some 0 else map_option Suc (position c ds))"

definition digit_value :: "char \<Rightarrow> nat option" where
  "digit_value c =
     (case position c ''0123456789abcdef'' of
        Some d \<Rightarrow> Some d
      | None \<Rightarrow> map_option (\<lambda>d. d + 10) (position c ''ABCDEF''))"

definition is_digit :: "nat \<Rightarrow> char \<Rightarrow> bool" where
  "is_digit radix c = (case digit_value c of None \<Rightarrow> False | Some d \<Rightarrow> d < radix)"

definition radix_value :: "nat \<Rightarrow> string \<Rightarrow> nat" where
  "radix_value radix ds =
     foldl (\<lambda>a c. a * radix + (case digit_value c of None \<Rightarrow> 0 | Some d \<Rightarrow> d)) 0 ds"

datatype numeric = NaN | Infinite | Finite rat

definition scale :: "nat \<Rightarrow> int \<Rightarrow> rat" where
  "scale m x = (if 0 \<le> x then of_nat m * 10 ^ nat x else of_nat m / 10 ^ nat (- x))"

text \<open>The exponent after \<^verbatim>\<open>e\<close>: an optional sign and at least one digit.\<close>

definition exponent :: "string \<Rightarrow> int option" where
  "exponent t =
     (let neg = (case t of c # r \<Rightarrow> c = CHR ''-'' | [] \<Rightarrow> False);
          d = (case t of c # r \<Rightarrow> if c = CHR ''-'' \<or> c = CHR ''+'' then r else t | [] \<Rightarrow> t)
      in if d \<noteq> [] \<and> list_all (is_digit 10) d
         then Some (if neg then - int (radix_value 10 d) else int (radix_value 10 d))
         else None)"

text \<open>
  \<^verbatim>\<open>Infinity\<close>, or digits with an optional point, fraction and exponent, with a digit
  before or after the point.
\<close>

definition unsigned_decimal :: "string \<Rightarrow> numeric" where
  "unsigned_decimal t =
     (if t = ''Infinity'' then Infinite
      else
        let ip = takeWhile (is_digit 10) t;
            r1 = dropWhile (is_digit 10) t;
            dot = (case r1 of c # r \<Rightarrow> c = CHR ''.'' | [] \<Rightarrow> False);
            r2 = (if dot then tl r1 else r1);
            fp = (if dot then takeWhile (is_digit 10) r2 else []);
            r3 = (if dot then dropWhile (is_digit 10) r2 else r2);
            m = radix_value 10 (ip @ fp)
        in if ip = [] \<and> fp = [] then NaN
           else (case r3 of
                   [] \<Rightarrow> Finite (scale m (- int (length fp)))
                 | c # r \<Rightarrow>
                     if c = CHR ''e'' \<or> c = CHR ''E''
                     then (case exponent r of
                             None \<Rightarrow> NaN
                           | Some x \<Rightarrow> Finite (scale m (x - int (length fp))))
                     else NaN))"

definition negated :: "numeric \<Rightarrow> numeric" where
  "negated v = (case v of Finite q \<Rightarrow> Finite (- q) | Infinite \<Rightarrow> Infinite | NaN \<Rightarrow> NaN)"

definition signed_decimal :: "string \<Rightarrow> numeric" where
  "signed_decimal t =
     (case t of
        [] \<Rightarrow> unsigned_decimal t
      | c # r \<Rightarrow>
          if c = CHR ''+'' then unsigned_decimal r
          else if c = CHR ''-'' then negated (unsigned_decimal r)
          else unsigned_decimal t)"

definition prefixed :: "nat \<Rightarrow> string \<Rightarrow> numeric" where
  "prefixed radix ds =
     (if ds \<noteq> [] \<and> list_all (is_digit radix) ds then Finite (of_nat (radix_value radix ds))
      else NaN)"

definition string_to_number :: "string \<Rightarrow> numeric" where
  "string_to_number s =
     (case trim s of
        [] \<Rightarrow> Finite 0
      | [c] \<Rightarrow> signed_decimal [c]
      | c # d # r \<Rightarrow>
          if c = CHR ''0'' \<and> (d = CHR ''x'' \<or> d = CHR ''X'') then prefixed 16 r
          else if c = CHR ''0'' \<and> (d = CHR ''o'' \<or> d = CHR ''O'') then prefixed 8 r
          else if c = CHR ''0'' \<and> (d = CHR ''b'' \<or> d = CHR ''B'') then prefixed 2 r
          else signed_decimal (c # d # r))"

text \<open>
  The rational \<open>v\<close> is rounded to the nearest double, ties to the even one. It becomes the
  number \<open>k\<close> when it lies between the midpoints to the neighbours of \<open>k\<close>: for
  \<open>2^e \<le> \<bar>k\<bar> < 2^(e+1)\<close> these are \<open>2^(e-53)\<close> away, and half as far below a power of two.
\<close>

fun log2 :: "nat \<Rightarrow> nat" where
  "log2 n = (if n < 2 then 0 else Suc (log2 (n div 2)))"

declare log2.simps [simp del]

definition rounds_to :: "rat \<Rightarrow> number \<Rightarrow> bool" where
  "rounds_to v k =
     (if number_value k = 0 then \<bar>v\<bar> \<le> 1 / 2 ^ 1075
      else
        let a = nat \<bar>number_value k\<bar>;
            e = log2 a;
            half = 1 / 2 ^ (53 - e);
            lo = of_nat a - (if a = 2 ^ e then half / 2 else half);
            hi = of_nat a + half;
            u = (if number_value k < 0 then - v else v)
        in if e < 52 \<or> even a then lo \<le> u \<and> u \<le> hi else lo < u \<and> u < hi)"

text \<open>Whether the string \<open>s\<close> converts to the number \<open>k\<close>.\<close>

definition string_is :: "string \<Rightarrow> number \<Rightarrow> bool" where
  "string_is s k = (case string_to_number s of Finite v \<Rightarrow> rounds_to v k | _ \<Rightarrow> False)"

text \<open>
  The loose comparisons of the script: \<^verbatim>\<open>x == k\<close> for a number \<open>k\<close> (a boolean converts
  to 1 or 0, a string to its number, \<^verbatim>\<open>null\<close> and \<^verbatim>\<open>undefined\<close> equal no number);
  \<^verbatim>\<open>x == true\<close>, which compares \<open>x\<close> with the number 1 that \<^verbatim>\<open>true\<close> converts to; and
  \<^verbatim>\<open>x == null\<close>, which holds of \<^verbatim>\<open>null\<close> and \<^verbatim>\<open>undefined\<close> only.
\<close>

fun eq_number :: "prim \<Rightarrow> number \<Rightarrow> bool" where
  "eq_number JUndefined k = False"
| "eq_number JNull k = False"
| "eq_number (JBool b) k = (number_value k = (if b then 1 else 0))"
| "eq_number (JNum n) k = (n = k)"
| "eq_number (JStr s) k = string_is s k"

definition eq_true :: "prim \<Rightarrow> bool" where
  "eq_true x = eq_number x (Number 1)"

fun eq_null :: "prim \<Rightarrow> bool" where
  "eq_null JUndefined = True"
| "eq_null JNull = True"
| "eq_null x = False"

subsection \<open>The page: elements, location, console\<close>

text \<open>
  A DOM element, as far as the plugin looks at it: its class names, the \<^verbatim>\<open>hostname\<close>
  property (\<open>None\<close> where the element has none, as on anything but a link) and the
  \<^verbatim>\<open>href\<close> attribute.
\<close>

record elem =
  classes :: "string list"
  hostname :: "string option"
  href :: "string option"

text \<open>jQuery's \<^verbatim>\<open>hasClass\<close> and \<^verbatim>\<open>addClass\<close> on one element.\<close>

definition hasClass :: "string \<Rightarrow> elem \<Rightarrow> bool" where
  "hasClass c e = (c \<in> set (classes e))"

definition addClass :: "string \<Rightarrow> elem \<Rightarrow> elem" where
  "addClass c e = (if c \<in> set (classes e) then e else e\<lparr>classes := classes e @ [c]\<rparr>)"

text \<open>
  What the script reads of the host environment: \<^verbatim>\<open>document.location.protocol\<close>,
  \<^verbatim>\<open>location.hostname\<close>, \<^verbatim>\<open>document.location.pathname\<close>,
  \<^verbatim>\<open>document.location.search\<close>, \<^verbatim>\<open>document.referrer\<close>, and whether
  \<^verbatim>\<open>console\<close> and \<^verbatim>\<open>console.debug\<close> are defined.
\<close>

record host =
  protocol :: string
  loc_hostname :: string
  pathname :: string
  search :: string
  referrer :: string
  has_console :: bool
  has_console_debug :: bool

subsection \<open>Settings\<close>

text \<open>
  A setting of \<^verbatim>\<open>$.fn.track\<close> is a literal or a function of the element. A callback
  carries a name, which stands for the identity of the function object, so that its
  invocations can be told apart in the trace. A callback computes a primitive value from
  the element it is given and does nothing else to the page, as the two of
  \<^verbatim>\<open>$.fn.track.defaults\<close> do.
\<close>

datatype setting = Lit prim | Callback string "elem \<Rightarrow> prim"

fun truthy_setting :: "setting \<Rightarrow> bool" where
  "truthy_setting (Lit p) = truthy p"
| "truthy_setting (Callback n f) = True"

record track_settings =
  s_category :: setting
  s_action :: setting
  s_label :: setting
  s_value :: setting
  s_skip_internal :: setting
  s_event_name :: setting
  s_debug :: setting

text \<open>
  The \<^verbatim>\<open>options\<close> argument of \<^verbatim>\<open>$.fn.track\<close>: every property may be missing. A call with
  no argument is the record of seven \<open>None\<close>.
\<close>

record track_options =
  o_category :: "setting option"
  o_action :: "setting option"
  o_label :: "setting option"
  o_value :: "setting option"
  o_skip_internal :: "setting option"
  o_event_name :: "setting option"
  o_debug :: "setting option"

text \<open>
  jQuery's \<^verbatim>\<open>$.extend\<close> copies the properties of the later object over the earlier one and
  leaves out the properties whose value is \<^verbatim>\<open>undefined\<close>; \<^verbatim>\<open>null\<close> is copied.
\<close>

fun extend_field :: "setting \<Rightarrow> setting option \<Rightarrow> setting" where
  "extend_field d None = d"
| "extend_field d (Some (Lit JUndefined)) = d"
| "extend_field d (Some v) = v"

definition extend_track :: "track_settings \<Rightarrow> track_options \<Rightarrow> track_settings" where
  "extend_track d opts =
     \<lparr> s_category = extend_field (s_category d) (o_category opts),
       s_action = extend_field (s_action d) (o_action opts),
       s_label = extend_field (s_label d) (o_label opts),
       s_value = extend_field (s_value d) (o_value opts),
       s_skip_internal = extend_field (s_skip_internal d) (o_skip_internal opts),
       s_event_name = extend_field (s_event_name d) (o_event_name opts),
       s_debug = extend_field (s_debug d) (o_debug opts) \<rparr>"

text \<open>
  The settings of \<^verbatim>\<open>$.trackPage\<close>, \<^verbatim>\<open>onload\<close> and \<^verbatim>\<open>status_code\<close>, are primitive
  values. In the options a property is missing or has a value, and \<^verbatim>\<open>$.extend\<close> leaves
  out the value \<^verbatim>\<open>undefined\<close>.
\<close>

record page_settings =
  onload :: prim
  status_code :: prim

record page_options =
  opt_onload :: "prim option"
  opt_status_code :: "prim option"

fun extend_value :: "prim \<Rightarrow> prim option \<Rightarrow> prim" where
  "extend_value d None = d"
| "extend_value d (Some JUndefined) = d"
| "extend_value d (Some v) = v"

definition extend_page :: "page_settings \<Rightarrow> page_options \<Rightarrow> page_settings" where
  "extend_page d opts =
     \<lparr> onload = extend_value (onload d) (opt_onload opts),
       status_code = extend_value (status_code d) (opt_status_code opts) \<rparr>"

subsection \<open>The state\<close>

text \<open>A tracker handle, as \<^verbatim>\<open>_gat._getTracker(account_id)\<close> returns it.\<close>

datatype tracker = Tracker string

text \<open>
  The global \<^verbatim>\<open>_gat\<close> of the Google Analytics library: not declared at all, declared with
  the value \<^verbatim>\<open>undefined\<close>, or the loaded library.
\<close>

datatype gat_global = GatUndeclared | GatUndefined | GatLoaded

datatype js_error = ReferenceError string | TypeError string | Thrown string

text \<open>What the script does to the outside, in the order it does it.\<close>

datatype effect =
    ConsoleDebug string
  | Called string nat
  | GetScript string
  | GetTracker string
  | TrackPageview tracker "string option"
  | TrackEvent tracker prim prim prim prim

text \<open>
  The handler \<^verbatim>\<open>$.fn.track\<close> binds is a closure over \<^verbatim>\<open>settings\<close>, the four evaluated
  values and \<^verbatim>\<open>message\<close>; \<open>l_name\<close> is the event name it is bound under.
\<close>

record listener =
  l_name :: string
  l_settings :: track_settings
  l_category :: prim
  l_action :: prim
  l_label :: prim
  l_value :: prim
  l_message :: string

text \<open>
  The closure \<^verbatim>\<open>load_script\<close> of one call of \<^verbatim>\<open>$.trackPage\<close>, with the variables
  \<^verbatim>\<open>init_analytics\<close> reads.
\<close>

record task =
  t_src :: string
  t_account :: string
  t_settings :: page_settings

text \<open>
  Elements are named by numbers; \<open>elems\<close> is the DOM and \<open>bound\<close> the handlers of the
  \<^verbatim>\<open>.track\<close> namespace on each element. \<open>pageTracker\<close> is the plugin's variable of that
  name (\<open>None\<close> while it is \<^verbatim>\<open>undefined\<close>) and \<open>defaults\<close> the mutable object
  \<^verbatim>\<open>$.fn.track.defaults\<close>. \<open>window_load\<close> holds the handlers waiting for the window's load
  event, \<open>pending\<close> the scripts requested and not yet loaded.
\<close>

record state =
  host :: host
  gat :: gat_global
  pageTracker :: "tracker option"
  defaults :: track_settings
  elems :: "nat \<Rightarrow> elem"
  bound :: "nat \<Rightarrow> listener list"
  window_load :: "task list"
  pending :: "task list"
  effects :: "effect list"

definition emit :: "effect \<Rightarrow> state \<Rightarrow> state" where
  "emit x st = st\<lparr>effects := effects st @ [x]\<rparr>"

subsection \<open>debug\<close>

definition debug :: "string \<Rightarrow> state \<Rightarrow> state" where
  "debug message st =
     (if has_console (host st) \<and> has_console_debug (host st) \<and> truthy_setting (s_debug (defaults st))
      then emit (ConsoleDebug message) st
      else st)"

subsection \<open>$.fn.track.defaults\<close>

definition default_category :: "string \<Rightarrow> elem \<Rightarrow> prim" where
  "default_category location_hostname element =
     (if hostname element = Some location_hostname then JStr ''internal'' else JStr ''external'')"

definition default_label :: "elem \<Rightarrow> prim" where
  "default_label element = (case href element of None \<Rightarrow> JUndefined | Some h \<Rightarrow> JStr h)"

definition track_defaults :: "host \<Rightarrow> track_settings" where
  "track_defaults h =
     \<lparr> s_category = Callback ''defaults.category'' (default_category (loc_hostname h)),
       s_action = Lit (JStr ''click''),
       s_label = Callback ''defaults.label'' default_label,
       s_value = Lit JNull,
       s_skip_internal = Lit (JBool True),
       s_event_name = Lit (JStr ''click''),
       s_debug = Lit (JBool False) \<rparr>"

subsection \<open>$.trackEvent\<close>

definition trackEvent :: "prim \<Rightarrow> prim \<Rightarrow> prim \<Rightarrow> prim \<Rightarrow> state \<Rightarrow> state" where
  "trackEvent category action label val st =
     (case pageTracker st of
        None \<Rightarrow> debug ''FATAL ERROR: pageTracker is not defined'' st
      | Some t \<Rightarrow> emit (TrackEvent t category action label val) st)"

subsection \<open>$.trackPage\<close>

text \<open>
  \<^verbatim>\<open>typeof _gat\<close> is a string whatever \<^verbatim>\<open>_gat\<close> is, and \<^verbatim>\<open>x != undefined\<close> holds of
  every \<open>x\<close> but \<^verbatim>\<open>undefined\<close> and \<^verbatim>\<open>null\<close>.
\<close>

fun typeof_gat :: "gat_global \<Rightarrow> prim" where
  "typeof_gat GatUndeclared = JStr ''undefined''"
| "typeof_gat GatUndefined = JStr ''undefined''"
| "typeof_gat GatLoaded = JStr ''object''"

fun ne_undefined :: "prim \<Rightarrow> bool" where
  "ne_undefined JUndefined = False"
| "ne_undefined JNull = False"
| "ne_undefined v = True"

text \<open>
  \<^verbatim>\<open>_gat._getTracker(account_id)\<close>: reading an undeclared variable is a ReferenceError,
  a property of \<^verbatim>\<open>undefined\<close> a TypeError.
\<close>

fun getTracker :: "string \<Rightarrow> state \<Rightarrow> js_error \<times> state + tracker \<times> state" where
  "getTracker account_id st =
     (case gat st of
        GatUndeclared \<Rightarrow> Inl (ReferenceError ''_gat'', st)
      | GatUndefined \<Rightarrow> Inl (TypeError ''_gat'', st)
      | GatLoaded \<Rightarrow> Inr (Tracker account_id, emit (GetTracker account_id) st))"

text \<open>
  The result is \<open>Inl (e, st')\<close> when the function raises \<open>e\<close>, leaving the state \<open>st'\<close>,
  and \<open>Inr st'\<close> when it returns.
\<close>

definition error_path :: "page_settings \<Rightarrow> host \<Rightarrow> string" where
  "error_path settings h =
     ''/'' @ to_string (status_code settings) @ ''.html?page='' @ pathname h @ search h
       @ ''&from='' @ referrer h"

definition init_analytics :: "string \<Rightarrow> page_settings \<Rightarrow> state \<Rightarrow> js_error \<times> state + state" where
  "init_analytics account_id settings st =
     (if ne_undefined (typeof_gat (gat st)) then
        (case getTracker account_id (debug ''Google Analytics loaded'' st) of
           Inl err \<Rightarrow> Inl err
         | Inr (t, st1) \<Rightarrow>
             let st2 = st1\<lparr>pageTracker := Some t\<rparr> in
             if eq_null (status_code settings) \<or> eq_number (status_code settings) (Number 200)
             then Inr (emit (TrackPageview t None) st2)
             else Inr (emit (TrackPageview t (Some (error_path settings (host st2))))
                        (debug (''Tracking error '' @ to_string (status_code settings)) st2)))
      else Inl (Thrown ''_gat is undefined'', st))"

text \<open>
  \<^verbatim>\<open>$.getScript(src, callback)\<close> requests the script; the callback runs when it has loaded
  (\<open>script_loaded\<close> below).
\<close>

definition load_script :: "task \<Rightarrow> state \<Rightarrow> state" where
  "load_script t st = (emit (GetScript (t_src t)) st)\<lparr>pending := pending st @ [t]\<rparr>"

definition trackPage :: "string \<Rightarrow> page_options \<Rightarrow> state \<Rightarrow> state" where
  "trackPage account_id options st =
     (let h = (if protocol (host st) = ''https:'' then ''https://ssl.'' else ''http://www.'');
          settings = extend_page \<lparr>onload = JBool True, status_code = JNum (Number 200)\<rparr> options;
          src = h @ ''google-analytics.com/ga.js'';
          t = \<lparr>t_src = src, t_account = account_id, t_settings = settings\<rparr>
      in if eq_true (onload settings) \<or> eq_null (onload settings)
         then st\<lparr>window_load := window_load st @ [t]\<rparr>
         else load_script t st)"

text \<open>
  The two events of the page the plugin waits for: the window's load event runs the handlers
  registered with \<^verbatim>\<open>$(window).load\<close>, and the arrival of the oldest requested script,
  which leaves \<^verbatim>\<open>_gat\<close> as \<open>g\<close>, runs its callback.
\<close>

definition window_loaded :: "state \<Rightarrow> state" where
  "window_loaded st = fold load_script (window_load st) (st\<lparr>window_load := []\<rparr>)"

definition script_loaded :: "gat_global \<Rightarrow> state \<Rightarrow> js_error \<times> state + state" where
  "script_loaded g st =
     (case pending st of
        [] \<Rightarrow> Inr st
      | t # ts \<Rightarrow> init_analytics (t_account t) (t_settings t) (st\<lparr>gat := g, pending := ts\<rparr>))"

subsection \<open>evaluate\<close>

text \<open>
  \<^verbatim>\<open>evaluate(element, stringOrFunction)\<close>, on the element numbered \<open>i\<close>. The function is
  called with the element as it is at that moment; the call is recorded in the trace.
\<close>

fun evaluate :: "nat \<Rightarrow> setting \<Rightarrow> state \<Rightarrow> prim \<times> state" where
  "evaluate i (Callback n f) st = (f (elems st i), emit (Called n i) st)"
| "evaluate i (Lit p) st = (p, st)"

subsection \<open>$.fn.track\<close>

text \<open>
  jQuery's \<^verbatim>\<open>bind(types, handler)\<close> takes \<open>types\<close> apart at white space and attaches the
  handler once for every word, the last word first; the event type of a word is what stands
  before its first period, and a word without a type is passed over.
\<close>

definition is_white :: "char \<Rightarrow> bool" where
  "is_white c = (c \<in> {CHR 0x20, CHR 0x09, CHR 0x0D, CHR 0x0A, CHR 0x0C})"

fun words_from :: "string \<Rightarrow> string \<Rightarrow> string list" where
  "words_from cur [] = (if cur = [] then [] else [cur])"
| "words_from cur (c # cs) =
     (if is_white c then (if cur = [] then words_from [] cs else cur # words_from [] cs)
      else words_from (cur @ [c]) cs)"

definition event_words :: "string \<Rightarrow> string list" where
  "event_words types = words_from [] types"

definition has_type :: "string \<Rightarrow> bool" where
  "has_type w = (case w of [] \<Rightarrow> False | c # r \<Rightarrow> c \<noteq> CHR ''.'')"

definition bind_words :: "string \<Rightarrow> string list" where
  "bind_words types = filter has_type (rev (event_words types))"

text \<open>
  \<^verbatim>\<open>$element.bind(l_name l, handler)\<close> on element \<open>i\<close>, for the handler \<open>l\<close>: the
  listeners it attaches, each under its word, and the state it leaves.
\<close>

definition handlers_of :: "listener \<Rightarrow> listener list" where
  "handlers_of l = map (\<lambda>w. l\<lparr>l_name := w\<rparr>) (bind_words (l_name l))"

definition bind_listener :: "nat \<Rightarrow> listener \<Rightarrow> state \<Rightarrow> state" where
  "bind_listener i l st = st\<lparr>bound := (bound st)(i := bound st i @ handlers_of l)\<rparr>"

definition message_of :: "prim \<Rightarrow> prim \<Rightarrow> prim \<Rightarrow> prim \<Rightarrow> string" where
  "message_of category action label val =
     ''category:'' @ [CHR 0x27] @ to_string category @ [CHR 0x27] @
     '' action:'' @ [CHR 0x27] @ to_string action @ [CHR 0x27] @
     '' label:'' @ [CHR 0x27] @ to_string label @ [CHR 0x27] @
     '' value:'' @ [CHR 0x27] @ to_string val @ [CHR 0x27]"

text \<open>
  The function \<^verbatim>\<open>$.fn.track\<close> passes to \<^verbatim>\<open>each\<close>, on the element numbered \<open>i\<close>. It
  returns \<^verbatim>\<open>false\<close> for an element of class \<^verbatim>\<open>tracked\<close> and nothing
  (\<^verbatim>\<open>undefined\<close>) otherwise.
\<close>

definition track_element :: "track_options \<Rightarrow> nat \<Rightarrow> state \<Rightarrow> prim \<times> state" where
  "track_element options i st =
     (if hasClass ''tracked'' (elems st i) then (JBool False, st)
      else
        let st0 = st\<lparr>elems := (elems st)(i := addClass ''tracked'' (elems st i))\<rparr>;
            settings = extend_track (defaults st0) options;
            (category, st1) = evaluate i (s_category settings) st0;
            (action, st2) = evaluate i (s_action settings) st1;
            (label, st3) = evaluate i (s_label settings) st2;
            (val, st4) = evaluate i (s_value settings) st3;
            (event_name, st5) = evaluate i (s_event_name settings) st4;
            message = message_of category action label val;
            st6 = debug (''Tracking '' @ to_string event_name @ '' '' @ message) st5
        in (JUndefined,
            bind_listener i
              \<lparr> l_name = to_string event_name @ ''.track'', l_settings = settings,
                l_category = category, l_action = action, l_label = label, l_value = val,
                l_message = message \<rparr> st6))"

text \<open>
  jQuery's \<^verbatim>\<open>each\<close>: the callback runs on the elements in order, and the loop stops at
  the first element for which it returns \<^verbatim>\<open>false\<close>.
\<close>

fun each :: "(nat \<Rightarrow> state \<Rightarrow> prim \<times> state) \<Rightarrow> nat list \<Rightarrow> state \<Rightarrow> state" where
  "each f [] st = st"
| "each f (i # rest) st =
     (case f i st of (r, st') \<Rightarrow> if r = JBool False then st' else each f rest st')"

text \<open>\<^verbatim>\<open>$(this).track(options)\<close> on the elements \<open>this\<close>; it returns what \<^verbatim>\<open>each\<close> returns, the elements.\<close>

definition track :: "track_options \<Rightarrow> nat list \<Rightarrow> state \<Rightarrow> nat list \<times> state" where
  "track options this st = (this, each (track_element options) this st)"

text \<open>The handler bound by \<^verbatim>\<open>track_element\<close> on element \<open>i\<close>, when it runs. It returns \<^verbatim>\<open>true\<close>.\<close>

definition handler :: "nat \<Rightarrow> listener \<Rightarrow> state \<Rightarrow> bool \<times> state" where
  "handler i l st =
     (let skip = truthy_setting (s_skip_internal (l_settings l))
                   \<and> hostname (elems st i) = Some (loc_hostname (host st))
      in if \<not> skip
         then (True, debug (''Tracked '' @ l_message l)
                       (trackEvent (l_category l) (l_action l) (l_label l) (l_value l) st))
         else (True, debug (''Skipped '' @ l_message l) st))"

text \<open>
  An event on element \<open>i\<close> under the name \<open>name\<close> runs, in the order they were bound, the
  handlers bound on \<open>i\<close> under that name.
\<close>

definition trigger :: "nat \<Rightarrow> string \<Rightarrow> state \<Rightarrow> state" where
  "trigger i name st =
     fold (\<lambda>l s. snd (handler i l s)) (filter (\<lambda>l. l_name l = name) (bound st i)) st"

subsection \<open>Reading the trace\<close>

fun console_of :: "effect \<Rightarrow> string list" where
  "console_of (ConsoleDebug m) = [m]"
| "console_of x = []"

fun event_of :: "effect \<Rightarrow> (tracker \<times> prim \<times> prim \<times> prim \<times> prim) list" where
  "event_of (TrackEvent t c a l v) = [(t, c, a, l, v)]"
| "event_of x = []"

fun pageview_of :: "effect \<Rightarrow> (tracker \<times> string option) list" where
  "pageview_of (TrackPageview t p) = [(t, p)]"
| "pageview_of x = []"

fun call_of :: "effect \<Rightarrow> (string \<times> nat) list" where
  "call_of (Called n i) = [(n, i)]"
| "call_of x = []"

definition console :: "state \<Rightarrow> string list" where
  "console st = concat (map console_of (effects st))"

definition events :: "state \<Rightarrow> (tracker \<times> prim \<times> prim \<times> prim \<times> prim) list" where
  "events st = concat (map event_of (effects st))"

definition pageviews :: "state \<Rightarrow> (tracker \<times> string option) list" where
  "pageviews st = concat (map pageview_of (effects st))"

definition calls :: "state \<Rightarrow> (string \<times> nat) list" where
  "calls st = concat (map call_of (effects st))"

subsection \<open>Vocabulary of the properties\<close>

text \<open>Whether \<^verbatim>\<open>debug\<close> writes: the condition of its \<^verbatim>\<open>if\<close>.\<close>

definition logging :: "state \<Rightarrow> bool" where
  "logging st =
     (has_console (host st) \<and> has_console_debug (host st) \<and> truthy_setting (s_debug (defaults st)))"

text \<open>The closure \<^verbatim>\<open>$.trackPage(account_id, options)\<close> makes of \<^verbatim>\<open>load_script\<close>.\<close>

definition ga_task :: "string \<Rightarrow> page_options \<Rightarrow> state \<Rightarrow> task" where
  "ga_task account_id options st =
     \<lparr> t_src = (if protocol (host st) = ''https:'' then ''https://ssl.'' else ''http://www.'')
                 @ ''google-analytics.com/ga.js'',
       t_account = account_id,
       t_settings = extend_page \<lparr>onload = JBool True, status_code = JNum (Number 200)\<rparr> options \<rparr>"

text \<open>
  The values of \<^verbatim>\<open>onload\<close> for which loading waits for the window: \<^verbatim>\<open>true\<close> and what
  compares equal to it, the number 1 and the strings that convert to 1; and \<^verbatim>\<open>null\<close>
  (with \<^verbatim>\<open>undefined\<close>).
\<close>

fun defers :: "prim \<Rightarrow> bool" where
  "defers JUndefined = True"
| "defers JNull = True"
| "defers (JBool b) = b"
| "defers (JNum n) = (number_value n = 1)"
| "defers (JStr s) = string_is s (Number 1)"

text \<open>What \<^verbatim>\<open>evaluate\<close> returns on an element, and the calls it makes on element \<open>i\<close>.\<close>

fun value_of :: "setting \<Rightarrow> elem \<Rightarrow> prim" where
  "value_of (Lit p) e = p"
| "value_of (Callback n f) e = f e"

fun called :: "nat \<Rightarrow> setting \<Rightarrow> (string \<times> nat) list" where
  "called i (Lit p) = []"
| "called i (Callback n f) = [(n, i)]"

text \<open>
  What \<^verbatim>\<open>$.fn.track\<close> makes of an element that is not marked yet: the listener it binds,
  with the values of the settings on the element \<open>e\<close>; the event name; the calls of
  callbacks; and the state it leaves.
\<close>

definition resolved :: "track_options \<Rightarrow> track_settings \<Rightarrow> elem \<Rightarrow> listener" where
  "resolved options d e =
     (let settings = extend_track d options;
          category = value_of (s_category settings) e;
          action = value_of (s_action settings) e;
          label = value_of (s_label settings) e;
          val = value_of (s_value settings) e;
          event_name = value_of (s_event_name settings) e
      in \<lparr> l_name = to_string event_name @ ''.track'', l_settings = settings,
            l_category = category, l_action = action, l_label = label, l_value = val,
            l_message = message_of category action label val \<rparr>)"

definition event_name_of :: "track_options \<Rightarrow> track_settings \<Rightarrow> elem \<Rightarrow> string" where
  "event_name_of options d e = to_string (value_of (s_event_name (extend_track d options)) e)"

definition evaluated :: "track_settings \<Rightarrow> nat \<Rightarrow> (string \<times> nat) list" where
  "evaluated settings i =
     called i (s_category settings) @ called i (s_action settings) @ called i (s_label settings)
       @ called i (s_value settings) @ called i (s_event_name settings)"

definition attached :: "track_options \<Rightarrow> nat \<Rightarrow> state \<Rightarrow> state" where
  "attached options i st =
     (let e = addClass ''tracked'' (elems st i);
          l = resolved options (defaults st) e
      in st\<lparr> elems := (elems st)(i := e),
             bound := (bound st)(i := bound st i @ handlers_of l),
             effects := effects st
               @ map (\<lambda>(n, j). Called n j) (evaluated (extend_track (defaults st) options) i)
               @ (if logging st
                  then [ConsoleDebug (''Tracking '' @ event_name_of options (defaults st) e @ '' '' @ l_message l)]
                  else []) \<rparr>)"

text \<open>
  What a page does with the element tracker, any number of times and in any order: it calls
  \<^verbatim>\<open>$(elements).track(options)\<close>, and its user fires events on elements.
\<close>

datatype action = DoTrack track_options "nat list" | DoTrigger nat string

fun perform :: "action \<Rightarrow> state \<Rightarrow> state" where
  "perform (DoTrack options this) st = snd (track options this st)"
| "perform (DoTrigger i name) st = trigger i name st"

definition run :: "action list \<Rightarrow> state \<Rightarrow> state" where
  "run acts st = fold perform acts st"

text \<open>A listener, and a state, with the \<^verbatim>\<open>debug\<close> property of the captured settings blanked.\<close>

definition blank_debug :: "listener \<Rightarrow> listener" where
  "blank_debug l = l\<lparr>l_settings := (l_settings l)\<lparr>s_debug := Lit JUndefined\<rparr>\<rparr>"

definition same_but_debug :: "state \<Rightarrow> state \<Rightarrow> bool" where
  "same_but_debug st st' =
     (host st = host st' \<and> gat st = gat st' \<and> pageTracker st = pageTracker st' \<and>
      defaults st = defaults st' \<and> elems st = elems st' \<and>
      window_load st = window_load st' \<and> pending st = pending st' \<and>
      effects st = effects st' \<and>
      (\<forall>j. map blank_debug (bound st j) = map blank_debug (bound st' j)))"

subsection \<open>A page to run the plugin on\<close>

text \<open>
  The page \<^verbatim>\<open>http://example.com/foo?x=1\<close>, reached from \<^verbatim>\<open>https://ref.example\<close>, with a
  console. Element 0 is a link to another host, element 1 a link within the site, element 2
  a link that its author gave the class \<^verbatim>\<open>tracked\<close>; every other number is an element
  without attributes.
\<close>

definition page :: host where
  "page = \<lparr> protocol = ''http:'', loc_hostname = ''example.com'', pathname = ''/foo'',
             search = ''?x=1'', referrer = ''https://ref.example'',
             has_console = True, has_console_debug = True \<rparr>"

definition plain :: elem where
  "plain = \<lparr> classes = [], hostname = None, href = None \<rparr>"

definition external_link :: elem where
  "external_link = \<lparr> classes = [], hostname = Some ''other.org'', href = Some ''http://other.org/a'' \<rparr>"

definition internal_link :: elem where
  "internal_link = \<lparr> classes = [''nav''], hostname = Some ''example.com'', href = Some ''/b'' \<rparr>"

definition styled_link :: elem where
  "styled_link = \<lparr> classes = [''tracked''], hostname = Some ''other.org'', href = Some ''http://other.org/c'' \<rparr>"

definition dom :: "nat \<Rightarrow> elem" where
  "dom = (\<lambda>i. plain)(0 := external_link, 1 := internal_link, 2 := styled_link)"

definition fresh :: state where
  "fresh = \<lparr> host = page, gat = GatUndeclared, pageTracker = None, defaults = track_defaults page,
             elems = dom, bound = (\<lambda>i. []), window_load = [], pending = [], effects = [] \<rparr>"

definition no_options :: track_options where
  "no_options = \<lparr> o_category = None, o_action = None, o_label = None, o_value = None,
                   o_skip_internal = None, o_event_name = None, o_debug = None \<rparr>"

text \<open>The same page once \<^verbatim>\<open>init_analytics\<close> has run, and a callback a page might pass as \<^verbatim>\<open>label\<close>.\<close>

definition live :: state where
  "live = fresh\<lparr>pageTracker := Some (Tracker ''UA-1'')\<rparr>"

definition label_callback :: setting where
  "label_callback = Callback ''page.label'' (\<lambda>e. case href e of None \<Rightarrow> JStr ''none'' | Some h \<Rightarrow> JStr (''to '' @ h))"

section \<open>Properties\<close>

subsection \<open>Numbers and words\<close>

lemma number_value_Number [simp]: "\<bar>n\<bar> < 2 ^ 53 \<Longrightarrow> number_value (Number n) = n"
  by (simp add: Number_inverse)

lemma number_eq_iff: "\<bar>k\<bar> < 2 ^ 53 \<Longrightarrow> (n = Number k) = (number_value n = k)"
  by (metis number_value_Number number_value_inverse)

lemmas number_of_string =
  string_is_def string_to_number_def trim_def is_space_def signed_decimal_def
  unsigned_decimal_def is_digit_def digit_value_def radix_value_def scale_def rounds_to_def
  log2.simps Let_def prefixed_def exponent_def negated_def

text \<open>The conversions at work.\<close>

lemma string_to_number_examples:
  "string_to_number '''' = Finite 0"
  "string_to_number '' 200 '' = Finite 200"
  "string_to_number ''-1.5e1'' = Finite (- 15)"
  "string_to_number ''.5'' = Finite (1 / 2)"
  "string_to_number ''1.'' = Finite 1"
  "string_to_number ''0xC8'' = Finite 200"
  "string_to_number ''0b11'' = Finite 3"
  "string_to_number ''-Infinity'' = Infinite"
  "string_to_number ''true'' = NaN"
  "string_to_number ''1 2'' = NaN"
  "string_to_number ''0x'' = NaN"
  "string_to_number ''-0x1'' = NaN"
  "string_to_number ''1e'' = NaN"
  "string_to_number ''.'' = NaN"
  by (simp_all add: number_of_string)

lemma string_is_examples:
  "string_is ''1'' (Number 1)" "string_is ''1.0'' (Number 1)" "string_is ''1e0'' (Number 1)"
  "string_is ''1.00000000000000000001'' (Number 1)" "\<not> string_is ''1.001'' (Number 1)"
  "\<not> string_is ''true'' (Number 1)" "\<not> string_is '''' (Number 1)"
  "string_is ''200'' (Number 200)" "string_is ''2e2'' (Number 200)" "\<not> string_is ''404'' (Number 200)"
  by (simp_all add: number_of_string)

lemma number_to_string_examples:
  "number_to_string (Number 0) = ''0''" "number_to_string (Number 404) = ''404''"
  "number_to_string (Number (- 17)) = ''-17''"
  "number_to_string (Number 9007199254740991) = ''9007199254740991''"
  by (simp_all add: number_to_string_def string_of_nat.simps digit_char_def)

text \<open>What \<^verbatim>\<open>bind\<close> makes of some event names.\<close>

lemma bind_words_examples:
  "bind_words ''click focus.track'' = [''focus.track'', ''click'']"
  "bind_words ''click.track click.track'' = [''click.track'', ''click.track'']"
  "bind_words '' click  .track'' = [''click'']"
  "bind_words ''.track'' = []"
  by (simp_all add: bind_words_def event_words_def is_white_def has_type_def)

lemma words_from_no_white:
  "list_all (\<lambda>c. \<not> is_white c) s \<Longrightarrow> words_from cur s = (if cur @ s = [] then [] else [cur @ s])"
  by (induction s arbitrary: cur) simp_all

text \<open>A name without white space is one word, and gives at most one handler.\<close>

lemma bind_words_one_word:
  "list_all (\<lambda>c. \<not> is_white c) name \<Longrightarrow> length (bind_words (name @ ''.track'')) \<le> 1"
  by (simp add: bind_words_def event_words_def words_from_no_white is_white_def)

lemma bind_words_click [simp]: "bind_words ''click.track'' = [''click.track'']"
  by (simp add: bind_words_def event_words_def is_white_def has_type_def)

subsection \<open>The trace and the fields a step leaves alone\<close>

lemma debug_fields [simp]:
  "host (debug m st) = host st" "gat (debug m st) = gat st"
  "pageTracker (debug m st) = pageTracker st" "defaults (debug m st) = defaults st"
  "elems (debug m st) = elems st" "bound (debug m st) = bound st"
  "window_load (debug m st) = window_load st" "pending (debug m st) = pending st"
  by (simp_all add: debug_def emit_def)

lemma emit_fields [simp]:
  "host (emit x st) = host st" "gat (emit x st) = gat st"
  "pageTracker (emit x st) = pageTracker st" "defaults (emit x st) = defaults st"
  "elems (emit x st) = elems st" "bound (emit x st) = bound st"
  "window_load (emit x st) = window_load st" "pending (emit x st) = pending st"
  "effects (emit x st) = effects st @ [x]"
  by (simp_all add: emit_def)

lemma effects_debug [simp]:
  "effects (debug m st) = effects st @ (if logging st then [ConsoleDebug m] else [])"
  by (simp add: debug_def logging_def)

lemma logging_debug [simp]: "logging (debug m st) = logging st"
  by (simp add: logging_def)

lemma logging_emit [simp]: "logging (emit x st) = logging st"
  by (simp add: logging_def)

lemma fresh_fields [simp]:
  "host fresh = page" "gat fresh = GatUndeclared" "pageTracker fresh = None"
  "defaults fresh = track_defaults page" "elems fresh = dom" "bound fresh = (\<lambda>i. [])"
  "window_load fresh = []" "pending fresh = []" "effects fresh = []"
  by (simp_all add: fresh_def)

lemma logging_fresh [simp]: "\<not> logging fresh"
  by (simp add: logging_def track_defaults_def)

subsection \<open>$.fn.track on one element, and the loop\<close>

lemma evaluate_fst [simp]: "fst (evaluate i s st) = value_of s (elems st i)"
  by (cases s) simp_all

lemma evaluate_snd [simp]:
  "snd (evaluate i s st) = st\<lparr>effects := effects st @ map (\<lambda>(n, j). Called n j) (called i s)\<rparr>"
  by (cases s) (simp_all add: emit_def)

lemma debug_effects_update:
  "debug m (st\<lparr>effects := fx\<rparr>)
     = st\<lparr>effects := fx @ (if logging st then [ConsoleDebug m] else [])\<rparr>"
  by (simp add: debug_def logging_def emit_def)

lemma logging_updates [simp]:
  "logging (st\<lparr>effects := fx\<rparr>) = logging st"
  "logging (st\<lparr>elems := es\<rparr>) = logging st"
  "logging (st\<lparr>bound := bs\<rparr>) = logging st"
  by (simp_all add: logging_def)

lemma track_element_marked:
  "hasClass ''tracked'' (elems st i) \<Longrightarrow> track_element options i st = (JBool False, st)"
  by (simp add: track_element_def)

lemma track_element_unmarked:
  "\<not> hasClass ''tracked'' (elems st i) \<Longrightarrow> track_element options i st = (JUndefined, attached options i st)"
  by (simp add: track_element_def attached_def resolved_def evaluated_def event_name_of_def Let_def split_def
      bind_listener_def debug_effects_update)

lemma attached_fields [simp]:
  "host (attached options i st) = host st" "gat (attached options i st) = gat st"
  "pageTracker (attached options i st) = pageTracker st"
  "defaults (attached options i st) = defaults st"
  "window_load (attached options i st) = window_load st"
  "pending (attached options i st) = pending st"
  "elems (attached options i st) = (elems st)(i := addClass ''tracked'' (elems st i))"
  "bound (attached options i st)
     = (bound st)(i := bound st i
          @ handlers_of (resolved options (defaults st) (addClass ''tracked'' (elems st i))))"
  by (simp_all add: attached_def Let_def)

lemma hasClass_addClass [simp]: "hasClass c (addClass c e)"
  by (simp add: hasClass_def addClass_def)

lemma each_marked_head:
  "hasClass ''tracked'' (elems st i) \<Longrightarrow> each (track_element options) (i # rest) st = st"
  by (simp add: track_element_marked)

lemma each_unmarked_head:
  "\<not> hasClass ''tracked'' (elems st i) \<Longrightarrow>
     each (track_element options) (i # rest) st
       = each (track_element options) rest (attached options i st)"
  by (simp add: track_element_unmarked)

declare each.simps(2) [simp del]

text \<open>A marked element keeps its mark and its handlers.\<close>

lemma each_keeps_marked:
  "hasClass ''tracked'' (elems st i) \<Longrightarrow>
     hasClass ''tracked'' (elems (each (track_element options) this st) i)
     \<and> bound (each (track_element options) this st) i = bound st i"
proof (induction this arbitrary: st)
  case Nil
  then show ?case by simp
next
  case (Cons j rest)
  show ?case
  proof (cases "hasClass ''tracked'' (elems st j)")
    case True
    with Cons.prems show ?thesis by (simp add: each_marked_head)
  next
    case False
    with Cons.prems have ne: "j \<noteq> i" by auto
    from Cons.prems ne have "hasClass ''tracked'' (elems (attached options j st) i)" by simp
    from Cons.IH [OF this] ne False show ?thesis by (simp add: each_unmarked_head)
  qed
qed

lemma handler_fields [simp]:
  "host (snd (handler i l st)) = host st" "gat (snd (handler i l st)) = gat st"
  "pageTracker (snd (handler i l st)) = pageTracker st"
  "defaults (snd (handler i l st)) = defaults st"
  "elems (snd (handler i l st)) = elems st" "bound (snd (handler i l st)) = bound st"
  "window_load (snd (handler i l st)) = window_load st"
  "pending (snd (handler i l st)) = pending st"
  by (simp_all add: handler_def trackEvent_def Let_def split: option.split)

lemma handlers_fields [simp]:
  "host (fold (\<lambda>l s. snd (handler i l s)) ls st) = host st"
  "gat (fold (\<lambda>l s. snd (handler i l s)) ls st) = gat st"
  "pageTracker (fold (\<lambda>l s. snd (handler i l s)) ls st) = pageTracker st"
  "defaults (fold (\<lambda>l s. snd (handler i l s)) ls st) = defaults st"
  "elems (fold (\<lambda>l s. snd (handler i l s)) ls st) = elems st"
  "bound (fold (\<lambda>l s. snd (handler i l s)) ls st) = bound st"
  "window_load (fold (\<lambda>l s. snd (handler i l s)) ls st) = window_load st"
  "pending (fold (\<lambda>l s. snd (handler i l s)) ls st) = pending st"
  by (induction ls arbitrary: st; simp)+

lemma trigger_fields [simp]:
  "host (trigger i name st) = host st" "gat (trigger i name st) = gat st"
  "pageTracker (trigger i name st) = pageTracker st"
  "defaults (trigger i name st) = defaults st"
  "elems (trigger i name st) = elems st" "bound (trigger i name st) = bound st"
  "window_load (trigger i name st) = window_load st"
  "pending (trigger i name st) = pending st"
  by (simp_all add: trigger_def)

lemma perform_keeps_marked:
  "hasClass ''tracked'' (elems st i) \<Longrightarrow>
     hasClass ''tracked'' (elems (perform a st) i) \<and> bound (perform a st) i = bound st i"
  by (cases a) (simp_all add: track_def each_keeps_marked)

lemma run_keeps_marked:
  "hasClass ''tracked'' (elems st i) \<Longrightarrow>
     hasClass ''tracked'' (elems (run acts st) i) \<and> bound (run acts st) i = bound st i"
  unfolding run_def
proof (induction acts arbitrary: st)
  case Nil
  then show ?case by simp
next
  case (Cons a acts)
  from perform_keeps_marked [OF Cons.prems, of a] Cons.IH [of "perform a st"]
  show ?case by simp
qed

lemma trace_emit [simp]:
  "console (emit x st) = console st @ console_of x"
  "events (emit x st) = events st @ event_of x"
  "pageviews (emit x st) = pageviews st @ pageview_of x"
  "calls (emit x st) = calls st @ call_of x"
  by (simp_all add: console_def events_def pageviews_def calls_def)

lemma trace_debug [simp]:
  "console (debug m st) = console st @ (if logging st then [m] else [])"
  "events (debug m st) = events st"
  "pageviews (debug m st) = pageviews st"
  "calls (debug m st) = calls st"
  by (simp_all add: console_def events_def pageviews_def calls_def)

lemma trackEvent_fields [simp]:
  "host (trackEvent c a l v st) = host st" "gat (trackEvent c a l v st) = gat st"
  "pageTracker (trackEvent c a l v st) = pageTracker st"
  "defaults (trackEvent c a l v st) = defaults st"
  "elems (trackEvent c a l v st) = elems st" "bound (trackEvent c a l v st) = bound st"
  "window_load (trackEvent c a l v st) = window_load st"
  "pending (trackEvent c a l v st) = pending st"
  by (simp_all add: trackEvent_def split: option.split)

lemma trace_trackEvent [simp]:
  "events (trackEvent c a l v st)
     = events st @ (case pageTracker st of None \<Rightarrow> [] | Some t \<Rightarrow> [(t, c, a, l, v)])"
  "calls (trackEvent c a l v st) = calls st"
  "pageviews (trackEvent c a l v st) = pageviews st"
  "logging (trackEvent c a l v st) = logging st"
  by (simp_all add: trackEvent_def split: option.split)

lemma console_trackEvent [simp]:
  "console (trackEvent c a l v st)
     = console st @ (if pageTracker st = None \<and> logging st
                     then [''FATAL ERROR: pageTracker is not defined''] else [])"
  by (cases "pageTracker st") (simp_all add: trackEvent_def)

lemma calls_handler [simp]: "calls (snd (handler i l st)) = calls st"
  by (simp add: handler_def Let_def)

lemma calls_handlers [simp]: "calls (fold (\<lambda>l s. snd (handler i l s)) ls st) = calls st"
  by (induction ls arbitrary: st) simp_all

lemma calls_trigger [simp]: "calls (trigger i name st) = calls st"
  by (simp add: trigger_def)

lemma calls_triggers: "calls ((trigger i name ^^ k) st) = calls st"
  by (induction k) simp_all

lemma calls_attached:
  "calls (attached options i st) = calls st @ evaluated (extend_track (defaults st) options) i"
proof -
  have "concat (map call_of (map (\<lambda>(n, j). Called n j) xs)) = xs" for xs
    by (induction xs) auto
  then show ?thesis
    by (simp add: attached_def Let_def calls_def)
qed

lemma trace_attached [simp]:
  "events (attached options i st) = events st"
  "pageviews (attached options i st) = pageviews st"
  "logging (attached options i st) = logging st"
  "console (attached options i st)
     = console st @ (if logging st
                     then [''Tracking '' @ event_name_of options (defaults st) (addClass ''tracked'' (elems st i))
                             @ '' '' @ l_message (resolved options (defaults st) (addClass ''tracked'' (elems st i)))]
                     else [])"
proof -
  have "concat (map event_of (map (\<lambda>(n, j). Called n j) xs)) = []"
    "concat (map pageview_of (map (\<lambda>(n, j). Called n j) xs)) = []"
    "concat (map console_of (map (\<lambda>(n, j). Called n j) xs)) = []" for xs :: "(string \<times> nat) list"
    by (induction xs) auto
  then show "events (attached options i st) = events st"
    "pageviews (attached options i st) = pageviews st"
    "console (attached options i st)
     = console st @ (if logging st
                     then [''Tracking '' @ event_name_of options (defaults st) (addClass ''tracked'' (elems st i))
                             @ '' '' @ l_message (resolved options (defaults st) (addClass ''tracked'' (elems st i)))]
                     else [])"
    by (simp_all add: attached_def Let_def events_def pageviews_def console_def)
  show "logging (attached options i st) = logging st"
    by (simp add: logging_def)
qed

lemma track_returns_this: "fst (track options this st) = this"
  by (simp add: track_def)

lemma track_stops_at_marked:
  "hasClass ''tracked'' (elems st i) \<Longrightarrow> track options (i # rest) st = (i # rest, st)"
  by (simp add: track_def each_marked_head)

text \<open>The example page.\<close>

lemma dom_simps [simp]:
  "dom 0 = external_link" "dom (Suc 0) = internal_link" "dom 2 = styled_link"
  by (simp_all add: dom_def)

lemma marks_of_dom [simp]:
  "\<not> hasClass ''tracked'' external_link" "\<not> hasClass ''tracked'' internal_link"
  "hasClass ''tracked'' styled_link"
  by (simp_all add: hasClass_def external_link_def internal_link_def styled_link_def)

lemma live_fields [simp]:
  "host live = page" "gat live = GatUndeclared" "pageTracker live = Some (Tracker ''UA-1'')"
  "defaults live = track_defaults page" "elems live = dom" "bound live = (\<lambda>i. [])"
  "window_load live = []" "pending live = []" "effects live = []"
  by (simp_all add: live_def)

lemma trace_fresh [simp]:
  "events fresh = []" "pageviews fresh = []" "calls fresh = []" "console fresh = []"
  by (simp_all add: events_def pageviews_def calls_def console_def)

lemma trace_live [simp]:
  "events live = []" "pageviews live = []" "calls live = []" "console live = []" "\<not> logging live"
  by (simp_all add: events_def pageviews_def calls_def console_def logging_def track_defaults_def)

lemma live_marks [simp]:
  "\<not> hasClass ''tracked'' (elems live 0)" "\<not> hasClass ''tracked'' (elems live (Suc 0))"
  by simp_all

subsection \<open>$.trackEvent\<close>

text \<open>
  C4. Soft unavailability of \<^verbatim>\<open>$.trackEvent\<close>. While \<open>pageTracker\<close> is undefined the call
  returns (the function has no raising branch), changes nothing but the console, where it
  writes the diagnostic when logging is on, and records neither an event nor a pageview.
  With a tracker handle \<open>t\<close> it makes exactly one call of \<open>t\<close>'s \<^verbatim>\<open>_trackEvent\<close>, with the
  four arguments as they were given.
\<close>

theorem trackEvent_forwards_or_noops:
  "(pageTracker st = None \<longrightarrow>
      trackEvent category action label val st
        = st\<lparr>effects := effects st @
               (if logging st then [ConsoleDebug ''FATAL ERROR: pageTracker is not defined''] else [])\<rparr>
      \<and> events (trackEvent category action label val st) = events st
      \<and> pageviews (trackEvent category action label val st) = pageviews st)
   \<and> (\<forall>t. pageTracker st = Some t \<longrightarrow>
        trackEvent category action label val st
          = st\<lparr>effects := effects st @ [TrackEvent t category action label val]\<rparr>
        \<and> events (trackEvent category action label val st)
            = events st @ [(t, category, action, label, val)])"
  by (auto simp: trackEvent_def debug_def emit_def logging_def events_def pageviews_def)

theorem trackEvent_forwards_or_noops_witness:
  "pageTracker fresh = None
   \<and> trackEvent (JStr ''external'') (JStr ''click'') (JStr ''/a'') JNull fresh = fresh
   \<and> pageTracker (fresh\<lparr>pageTracker := Some (Tracker ''UA-1'')\<rparr>) = Some (Tracker ''UA-1'')
   \<and> events (trackEvent (JStr ''external'') (JStr ''click'') (JStr ''/a'') JNull
               (fresh\<lparr>pageTracker := Some (Tracker ''UA-1'')\<rparr>))
       = [(Tracker ''UA-1'', JStr ''external'', JStr ''click'', JStr ''/a'', JNull)]"
  using trackEvent_forwards_or_noops [of fresh "JStr ''external''" "JStr ''click''" "JStr ''/a''" JNull]
    trackEvent_forwards_or_noops [of "fresh\<lparr>pageTracker := Some (Tracker ''UA-1'')\<rparr>"
      "JStr ''external''" "JStr ''click''" "JStr ''/a''" JNull]
  by (simp add: events_def)

subsection \<open>init_analytics\<close>

text \<open>
  The test \<^verbatim>\<open>typeof _gat != undefined\<close> compares a string with \<^verbatim>\<open>undefined\<close> and so
  always holds: \<^verbatim>\<open>throw '_gat is undefined'\<close> is never reached.
\<close>

lemma init_analytics_never_throws_string:
  "init_analytics account_id settings st \<noteq> Inl (Thrown m, st')"
  by (cases "gat st") (auto simp: init_analytics_def Let_def)

text \<open>
  C3. Fatal misconfiguration. When \<^verbatim>\<open>_gat\<close> is undefined as \<^verbatim>\<open>init_analytics\<close> runs, the
  function raises: the error is the ReferenceError (or TypeError) of reading
  \<^verbatim>\<open>_gat._getTracker\<close>, after the line "Google Analytics loaded" has gone to the console
  when logging is on. \<open>pageTracker\<close> keeps the value it had, no tracker is asked for and no
  pageview is recorded.
\<close>

theorem init_analytics_without_gat:
  assumes "gat st \<noteq> GatLoaded"
  shows "\<exists>e st'. init_analytics account_id settings st = Inl (e, st')
           \<and> (e = ReferenceError ''_gat'' \<or> e = TypeError ''_gat'')
           \<and> pageTracker st' = pageTracker st
           \<and> effects st' = effects st @ (if logging st then [ConsoleDebug ''Google Analytics loaded''] else [])
           \<and> pageviews st' = pageviews st"
  using assms by (cases "gat st") (auto simp: init_analytics_def pageviews_def)

theorem init_analytics_without_gat_witness:
  "gat fresh \<noteq> GatLoaded
   \<and> init_analytics ''UA-1'' \<lparr>onload = JBool True, status_code = JNum (Number 200)\<rparr> fresh
       = Inl (ReferenceError ''_gat'', fresh)"
  using init_analytics_without_gat [of fresh "''UA-1''" "\<lparr>onload = JBool True, status_code = JNum (Number 200)\<rparr>"]
  by (auto simp: init_analytics_def)

text \<open>
  C5. The pageview of \<^verbatim>\<open>init_analytics\<close>. With the library loaded the function returns,
  \<open>pageTracker\<close> is the tracker of the account, and exactly one pageview is recorded. It
  has no path when \<^verbatim>\<open>status_code\<close> is \<^verbatim>\<open>null\<close> or equals 200 (the number 200, or a
  string that converts to it); for every other \<^verbatim>\<open>status_code\<close> the path is
  \<^verbatim>\<open>'/' + status_code + '.html?page=' + pathname + search + '&from=' + referrer\<close>, in
  which a number stands as its decimal numeral. The witness is the page \<^verbatim>\<open>/foo?x=1\<close>
  reached from \<^verbatim>\<open>https://ref.example\<close> with the status 404.
\<close>

theorem init_analytics_pageview:
  assumes "gat st = GatLoaded"
  shows "\<exists>st'. init_analytics account_id settings st = Inr st'
           \<and> pageTracker st' = Some (Tracker account_id)
           \<and> pageviews st' = pageviews st @
                 [(Tracker account_id,
                   let rest = ''.html?page='' @ pathname (host st) @ search (host st)
                                @ ''&from='' @ referrer (host st)
                   in case status_code settings of
                        JUndefined \<Rightarrow> None
                      | JNull \<Rightarrow> None
                      | JBool b \<Rightarrow> Some (''/'' @ (if b then ''true'' else ''false'') @ rest)
                      | JNum n \<Rightarrow>
                          if number_value n = 200 then None
                          else Some (''/'' @ number_to_string n @ rest)
                      | JStr s \<Rightarrow>
                          if string_is s (Number 200) then None else Some (''/'' @ s @ rest))]"
  using assms
  by (cases "status_code settings")
     (auto simp: init_analytics_def Let_def pageviews_def error_path_def number_eq_iff
        number_to_string_def)

theorem init_analytics_pageview_witness:
  "gat (fresh\<lparr>gat := GatLoaded\<rparr>) = GatLoaded
   \<and> (\<exists>st'. init_analytics ''UA-1'' \<lparr>onload = JBool True, status_code = JNum (Number 404)\<rparr>
                (fresh\<lparr>gat := GatLoaded\<rparr>) = Inr st'
          \<and> pageviews st' = [(Tracker ''UA-1'', Some ''/404.html?page=/foo?x=1&from=https://ref.example'')])
   \<and> (\<exists>st'. init_analytics ''UA-1'' \<lparr>onload = JBool True, status_code = JNum (Number 200)\<rparr>
                (fresh\<lparr>gat := GatLoaded\<rparr>) = Inr st'
          \<and> pageviews st' = [(Tracker ''UA-1'', None)])
   \<and> (\<exists>st'. init_analytics ''UA-1'' \<lparr>onload = JBool True, status_code = JNull\<rparr>
                (fresh\<lparr>gat := GatLoaded\<rparr>) = Inr st'
          \<and> pageviews st' = [(Tracker ''UA-1'', None)])
   \<and> (\<exists>st'. init_analytics ''UA-1'' \<lparr>onload = JBool True, status_code = JStr ''200''\<rparr>
                (fresh\<lparr>gat := GatLoaded\<rparr>) = Inr st'
          \<and> pageviews st' = [(Tracker ''UA-1'', None)])
   \<and> (\<exists>st'. init_analytics ''UA-1'' \<lparr>onload = JBool True, status_code = JStr ''404''\<rparr>
                (fresh\<lparr>gat := GatLoaded\<rparr>) = Inr st'
          \<and> pageviews st' = [(Tracker ''UA-1'', Some ''/404.html?page=/foo?x=1&from=https://ref.example'')])"
proof -
  have s404: "number_to_string (Number 404) = ''404''"
    by (simp add: number_to_string_def string_of_nat.simps digit_char_def)
  have pv: "pageviews (fresh\<lparr>gat := GatLoaded\<rparr>) = []"
    by (simp add: pageviews_def)
  have s: "string_is ''200'' (Number 200)" "\<not> string_is ''404'' (Number 200)"
    by (simp_all add: number_of_string)
  show ?thesis
    using init_analytics_pageview [of "fresh\<lparr>gat := GatLoaded\<rparr>" "''UA-1''" "\<lparr>onload = JBool True, status_code = JNum (Number 404)\<rparr>"]
      init_analytics_pageview [of "fresh\<lparr>gat := GatLoaded\<rparr>" "''UA-1''" "\<lparr>onload = JBool True, status_code = JNum (Number 200)\<rparr>"]
      init_analytics_pageview [of "fresh\<lparr>gat := GatLoaded\<rparr>" "''UA-1''" "\<lparr>onload = JBool True, status_code = JNull\<rparr>"]
      init_analytics_pageview [of "fresh\<lparr>gat := GatLoaded\<rparr>" "''UA-1''" "\<lparr>onload = JBool True, status_code = JStr ''200''\<rparr>"]
      init_analytics_pageview [of "fresh\<lparr>gat := GatLoaded\<rparr>" "''UA-1''" "\<lparr>onload = JBool True, status_code = JStr ''404''\<rparr>"]
    by (simp add: s404 pv page_def s) blast
qed

subsection \<open>$.trackPage\<close>

text \<open>
  What the two events of the page do with one call of \<^verbatim>\<open>$.trackPage\<close>: the window's load
  event requests the script of a deferred call, and the arrival of the script runs
  \<^verbatim>\<open>init_analytics\<close> with the account and the settings of the call.
\<close>

lemma window_loaded_single:
  "window_load st = [] \<Longrightarrow> window_loaded (st\<lparr>window_load := [t]\<rparr>) = load_script t st"
  by (simp add: window_loaded_def load_script_def emit_def)

lemma script_loaded_single:
  "pending st = [] \<Longrightarrow>
     script_loaded g (load_script t st)
       = init_analytics (t_account t) (t_settings t)
           (st\<lparr>effects := effects st @ [GetScript (t_src t)], gat := g, pending := []\<rparr>)"
  by (simp add: script_loaded_def load_script_def emit_def)

text \<open>The test \<^verbatim>\<open>settings.onload == true || settings.onload == null\<close>, value by value.\<close>

lemma defers_iff: "defers x = (eq_true x \<or> eq_null x)"
  by (cases x) (simp_all add: eq_true_def number_eq_iff)

text \<open>
  C8, as the code has it. After the options are merged over
  \<^verbatim>\<open>{onload: true, status_code: 200}\<close>, \<^verbatim>\<open>load_script\<close> waits for the window's load
  event exactly when the merged \<^verbatim>\<open>onload\<close> compares equal to \<^verbatim>\<open>true\<close> or to
  \<^verbatim>\<open>null\<close>: when it is \<^verbatim>\<open>true\<close>, the number 1, a string that converts to 1, or
  \<^verbatim>\<open>null\<close>. For every other value (\<^verbatim>\<open>false\<close>, another number, another string) the
  script is requested at once.
\<close>

theorem trackPage_deferral:
  "(let settings = extend_page \<lparr>onload = JBool True, status_code = JNum (Number 200)\<rparr> options;
        t = ga_task account_id options st
    in (\<not> defers (onload settings) \<longrightarrow>
          trackPage account_id options st
            = st\<lparr>pending := pending st @ [t], effects := effects st @ [GetScript (t_src t)]\<rparr>)
     \<and> (defers (onload settings) \<longrightarrow>
          trackPage account_id options st = st\<lparr>window_load := window_load st @ [t]\<rparr>))"
  by (auto simp: trackPage_def Let_def ga_task_def load_script_def emit_def defers_iff)

theorem trackPage_deferral_witness:
  "\<not> defers (onload (extend_page \<lparr>onload = JBool True, status_code = JNum (Number 200)\<rparr>
                      \<lparr>opt_onload = Some (JBool False), opt_status_code = None\<rparr>))
   \<and> pending (trackPage ''UA-1'' \<lparr>opt_onload = Some (JBool False), opt_status_code = None\<rparr> fresh)
       = [\<lparr>t_src = ''http://www.google-analytics.com/ga.js'', t_account = ''UA-1'',
           t_settings = \<lparr>onload = JBool False, status_code = JNum (Number 200)\<rparr>\<rparr>]
   \<and> window_load (trackPage ''UA-1'' \<lparr>opt_onload = Some (JBool False), opt_status_code = None\<rparr> fresh) = []
   \<and> defers (onload (extend_page \<lparr>onload = JBool True, status_code = JNum (Number 200)\<rparr>
                      \<lparr>opt_onload = None, opt_status_code = None\<rparr>))
   \<and> pending (trackPage ''UA-1'' \<lparr>opt_onload = None, opt_status_code = None\<rparr> fresh) = []
   \<and> window_load (trackPage ''UA-1'' \<lparr>opt_onload = None, opt_status_code = None\<rparr> fresh)
       = [\<lparr>t_src = ''http://www.google-analytics.com/ga.js'', t_account = ''UA-1'',
           t_settings = \<lparr>onload = JBool True, status_code = JNum (Number 200)\<rparr>\<rparr>]
   \<and> defers (JNum (Number 1))
   \<and> pending (trackPage ''UA-1'' \<lparr>opt_onload = Some (JNum (Number 1)), opt_status_code = None\<rparr> fresh) = []
   \<and> defers (JStr ''1'')
   \<and> pending (trackPage ''UA-1'' \<lparr>opt_onload = Some (JStr ''1''), opt_status_code = None\<rparr> fresh) = []
   \<and> \<not> defers (JNum (Number 0))
   \<and> window_load (trackPage ''UA-1'' \<lparr>opt_onload = Some (JNum (Number 0)), opt_status_code = None\<rparr> fresh) = []
   \<and> \<not> defers (JStr ''true'')
   \<and> window_load (trackPage ''UA-1'' \<lparr>opt_onload = Some (JStr ''true''), opt_status_code = None\<rparr> fresh) = []"
proof -
  have s: "string_is ''1'' (Number 1)" "\<not> string_is ''true'' (Number 1)"
    by (simp_all add: number_of_string)
  show ?thesis
    using trackPage_deferral [of "\<lparr>opt_onload = Some (JBool False), opt_status_code = None\<rparr>" "''UA-1''" fresh]
      trackPage_deferral [of "\<lparr>opt_onload = None, opt_status_code = None\<rparr>" "''UA-1''" fresh]
      trackPage_deferral [of "\<lparr>opt_onload = Some (JNum (Number 1)), opt_status_code = None\<rparr>" "''UA-1''" fresh]
      trackPage_deferral [of "\<lparr>opt_onload = Some (JStr ''1''), opt_status_code = None\<rparr>" "''UA-1''" fresh]
      trackPage_deferral [of "\<lparr>opt_onload = Some (JNum (Number 0)), opt_status_code = None\<rparr>" "''UA-1''" fresh]
      trackPage_deferral [of "\<lparr>opt_onload = Some (JStr ''true''), opt_status_code = None\<rparr>" "''UA-1''" fresh]
    by (simp add: Let_def extend_page_def ga_task_def page_def s)
qed

text \<open>
  C8 as the specification words it fails for \<^verbatim>\<open>onload: null\<close>: the merged \<^verbatim>\<open>onload\<close> is
  \<^verbatim>\<open>null\<close>, not \<^verbatim>\<open>true\<close>, and yet no script is requested; the closure waits for the
  window's load event.
\<close>

theorem onload_null_counterexample:
  "onload (extend_page \<lparr>onload = JBool True, status_code = JNum (Number 200)\<rparr>
             \<lparr>opt_onload = Some JNull, opt_status_code = None\<rparr>) \<noteq> JBool True
   \<and> pending (trackPage ''UA-1'' \<lparr>opt_onload = Some JNull, opt_status_code = None\<rparr> fresh) = []
   \<and> effects (trackPage ''UA-1'' \<lparr>opt_onload = Some JNull, opt_status_code = None\<rparr> fresh) = []
   \<and> window_load (trackPage ''UA-1'' \<lparr>opt_onload = Some JNull, opt_status_code = None\<rparr> fresh)
       = [\<lparr>t_src = ''http://www.google-analytics.com/ga.js'', t_account = ''UA-1'',
           t_settings = \<lparr>onload = JNull, status_code = JNum (Number 200)\<rparr>\<rparr>]"
  by (simp add: trackPage_def Let_def extend_page_def page_def)

subsection \<open>$.fn.track: the mark\<close>

text \<open>
  C1, as the code has it. Whatever the page does afterwards (calls of \<^verbatim>\<open>track\<close> with
  any options on any elements, and events), an element that carries the mark keeps exactly
  the handlers it has: no call attaches another one. The call that finds the element
  without the mark attaches the handlers of one \<^verbatim>\<open>bind\<close>, one for every word of
  \<^verbatim>\<open>event_name + '.track'\<close> that has an event type, and these stay the only ones it
  adds; an event name without white space gives at most one.
\<close>

theorem track_attaches_once:
  "(hasClass ''tracked'' (elems st i) \<longrightarrow> bound (run acts st) i = bound st i)
   \<and> (\<not> hasClass ''tracked'' (elems st i) \<longrightarrow>
        (let e = addClass ''tracked'' (elems st i);
             l = resolved options (defaults st) e
         in bound (run (DoTrack options (i # rest) # acts) st) i = bound st i @ handlers_of l
            \<and> (list_all (\<lambda>c. \<not> is_white c) (event_name_of options (defaults st) e)
                 \<longrightarrow> length (handlers_of l) \<le> 1)))"
proof -
  have "bound (run (DoTrack options (i # rest) # acts) st) i
          = bound st i @ handlers_of (resolved options (defaults st) (addClass ''tracked'' (elems st i)))"
    if u: "\<not> hasClass ''tracked'' (elems st i)"
  proof -
    let ?st1 = "attached options i st"
    let ?st2 = "each (track_element options) rest ?st1"
    have m1: "hasClass ''tracked'' (elems ?st1 i)"
      by simp
    from each_keeps_marked [OF m1, of options rest]
    have m2: "hasClass ''tracked'' (elems ?st2 i)" and b2: "bound ?st2 i = bound ?st1 i"
      by simp_all
    have "run (DoTrack options (i # rest) # acts) st = run acts ?st2"
      using u by (simp add: run_def track_def each_unmarked_head)
    with run_keeps_marked [OF m2, of acts] b2 show ?thesis
      by simp
  qed
  moreover have "length (handlers_of (resolved options d e)) \<le> 1"
    if "list_all (\<lambda>c. \<not> is_white c) (event_name_of options d e)" for d e
    using bind_words_one_word [OF that]
    by (simp add: handlers_of_def resolved_def event_name_of_def Let_def)
  ultimately show ?thesis
    using run_keeps_marked [of st i acts] by (simp add: Let_def)
qed

theorem track_attaches_once_witness:
  "hasClass ''tracked'' (elems (snd (track no_options [0] fresh)) 0)
   \<and> map l_name (bound (snd (track no_options [0] fresh)) 0) = [''click.track'']
   \<and> bound (run [DoTrack no_options [0], DoTrigger 0 ''click.track'', DoTrack no_options [1, 0]]
               (snd (track no_options [0] fresh))) 0
       = bound (snd (track no_options [0] fresh)) 0
   \<and> \<not> hasClass ''tracked'' (elems fresh 0)
   \<and> list_all (\<lambda>c. \<not> is_white c) (event_name_of no_options (defaults fresh) (addClass ''tracked'' (elems fresh 0)))
   \<and> map l_name (bound (run [DoTrack no_options [0, 1], DoTrack no_options [0], DoTrack no_options [1, 0]] fresh) 0)
       = [''click.track'']"
proof -
  have n: "l_name (resolved no_options (defaults fresh) (addClass ''tracked'' (elems fresh 0))) = ''click.track''"
    "event_name_of no_options (defaults fresh) (addClass ''tracked'' (elems fresh 0)) = ''click''"
    by (simp_all add: resolved_def event_name_of_def Let_def no_options_def extend_track_def
        track_defaults_def)
  show ?thesis
    using track_attaches_once [where st = "snd (track no_options [0] fresh)" and i = 0
        and acts = "[DoTrack no_options [0], DoTrigger 0 ''click.track'', DoTrack no_options [1, 0]]"
        and options = no_options and rest = "[]"]
      track_attaches_once [where st = fresh and i = 0 and options = no_options and rest = "[1]"
        and acts = "[DoTrack no_options [0], DoTrack no_options [1, 0]]"]
      n
    by (simp add: track_def each_unmarked_head Let_def handlers_of_def is_white_def comp_def)
qed

text \<open>
  C1 as the specification words it fails for an event name of several words: with
  \<^verbatim>\<open>event_name: 'click.track click'\<close> one call of \<^verbatim>\<open>track\<close> on an element that has
  neither the mark nor a handler binds \<^verbatim>\<open>'click.track click.track'\<close>, and the element
  has two handlers of the event \<^verbatim>\<open>click\<close> in the namespace \<^verbatim>\<open>track\<close>.
\<close>

theorem two_words_counterexample:
  "\<not> hasClass ''tracked'' (elems fresh 0) \<and> bound fresh 0 = []
   \<and> map l_name (bound (snd (track (no_options\<lparr>o_event_name := Some (Lit (JStr ''click.track click''))\<rparr>)
                                 [0] fresh)) 0)
       = [''click.track'', ''click.track'']"
  by (simp add: track_def each_unmarked_head handlers_of_def resolved_def Let_def no_options_def
      extend_track_def track_defaults_def bind_words_def event_words_def is_white_def has_type_def)

text \<open>
  C2. The callback of \<^verbatim>\<open>each\<close> returns \<^verbatim>\<open>false\<close> for a marked element, which ends
  jQuery's loop. On the example page element 2 is marked and element 0 is not:
  \<^verbatim>\<open>track\<close> on the elements 2, 0 returns them and leaves the page as it was, so element
  0 gets no handler, while in the order 0, 2 it gets one.
\<close>

theorem track_skips_the_rest:
  "hasClass ''tracked'' (elems fresh 2) \<and> \<not> hasClass ''tracked'' (elems fresh 0)
   \<and> track no_options [2, 0] fresh = ([2, 0], fresh)
   \<and> bound (snd (track no_options [2, 0] fresh)) 0 = []
   \<and> length (bound (snd (track no_options [0, 2] fresh)) 0) = 1"
  by (simp add: track_stops_at_marked track_def each_unmarked_head each_marked_head
      handlers_of_def resolved_def Let_def no_options_def extend_track_def track_defaults_def)

text \<open>
  C9. The mark is the CSS class \<^verbatim>\<open>tracked\<close>. An element that has the class without ever
  having been tracked is left alone by \<^verbatim>\<open>track\<close>, without a line on the console; it
  has no handler after anything the page does, and an event on it changes nothing.
\<close>

theorem class_tracked_is_never_tracked:
  assumes "hasClass ''tracked'' (elems st i)" and "bound st i = []"
  shows "track options [i] st = ([i], st)
         \<and> bound (run acts st) i = []
         \<and> trigger i name (run acts st) = run acts st"
  using assms run_keeps_marked [of st i acts]
  by (simp add: track_stops_at_marked trigger_def)

theorem class_tracked_is_never_tracked_witness:
  "hasClass ''tracked'' (elems fresh 2) \<and> bound fresh 2 = []
   \<and> track no_options [2] fresh = ([2], fresh)
   \<and> bound (run [DoTrack no_options [0, 2], DoTrack no_options [2]] fresh) 2 = []
   \<and> trigger 2 ''click.track'' (run [DoTrack no_options [0, 2], DoTrack no_options [2]] fresh)
       = run [DoTrack no_options [0, 2], DoTrack no_options [2]] fresh"
  using class_tracked_is_never_tracked [of fresh 2 no_options
      "[DoTrack no_options [0, 2], DoTrack no_options [2]]" "''click.track''"]
  by simp

subsection \<open>$.fn.track: the handler\<close>

text \<open>
  C6. The skip-internal policy. On an element that is not marked, \<^verbatim>\<open>track\<close> binds the
  handler of the values resolved at that moment. Whenever that handler runs, under whatever
  word it was attached and in any later state \<open>st'\<close>: if \<^verbatim>\<open>skip_internal\<close> is truthy and the element's \<^verbatim>\<open>hostname\<close> is the
  page's, it only calls \<^verbatim>\<open>debug\<close> with "Skipped" and the message, and no event is
  recorded; otherwise it calls \<^verbatim>\<open>$.trackEvent\<close> once, with the four resolved values, and
  then \<^verbatim>\<open>debug\<close> with "Tracked" and the message. It returns \<^verbatim>\<open>true\<close> either way.
  (\<^verbatim>\<open>debug\<close> writes to the console when logging is on: \<open>effects_debug\<close>.)
\<close>

theorem handler_skips_internal:
  assumes "\<not> hasClass ''tracked'' (elems st i)"
  shows
    "(let e = addClass ''tracked'' (elems st i);
          settings = extend_track (defaults st) options;
          category = value_of (s_category settings) e;
          action = value_of (s_action settings) e;
          label = value_of (s_label settings) e;
          val = value_of (s_value settings) e;
          message = message_of category action label val;
          l = resolved options (defaults st) e
      in bound (snd (track_element options i st)) i = bound st i @ handlers_of l
         \<and> (\<forall>w st'.
              (truthy_setting (s_skip_internal settings)
                 \<and> hostname (elems st' i) = Some (loc_hostname (host st'))
               \<longrightarrow> handler i (l\<lparr>l_name := w\<rparr>) st' = (True, debug (''Skipped '' @ message) st')
                   \<and> events (snd (handler i (l\<lparr>l_name := w\<rparr>) st')) = events st'
                   \<and> console (snd (handler i (l\<lparr>l_name := w\<rparr>) st'))
                       = console st' @ (if logging st' then [''Skipped '' @ message] else []))
            \<and> (\<not> (truthy_setting (s_skip_internal settings)
                     \<and> hostname (elems st' i) = Some (loc_hostname (host st')))
               \<longrightarrow> handler i (l\<lparr>l_name := w\<rparr>) st'
                     = (True, debug (''Tracked '' @ message) (trackEvent category action label val st'))
                   \<and> (\<forall>t. pageTracker st' = Some t \<longrightarrow>
                         events (snd (handler i (l\<lparr>l_name := w\<rparr>) st'))
                           = events st' @ [(t, category, action, label, val)]
                         \<and> console (snd (handler i (l\<lparr>l_name := w\<rparr>) st'))
                             = console st' @ (if logging st' then [''Tracked '' @ message] else [])))))"
  using assms
  by (simp add: track_element_unmarked Let_def handler_def resolved_def)

theorem handler_skips_internal_witness:
  "\<not> hasClass ''tracked'' (elems live 1)
   \<and> truthy_setting (s_skip_internal (extend_track (defaults live) no_options))
   \<and> hostname (elems (snd (track no_options [1] live)) 1) = Some (loc_hostname (host live))
   \<and> events (trigger 1 ''click.track'' (snd (track no_options [1] live))) = []
   \<and> \<not> truthy_setting (s_skip_internal
          (extend_track (defaults live) (no_options\<lparr>o_skip_internal := Some (Lit (JBool False))\<rparr>)))
   \<and> events (trigger 1 ''click.track''
        (snd (track (no_options\<lparr>o_skip_internal := Some (Lit (JBool False))\<rparr>) [1] live)))
       = [(Tracker ''UA-1'', JStr ''internal'', JStr ''click'', JStr ''/b'', JNull)]"
proof -
  let ?off = "no_options\<lparr>o_skip_internal := Some (Lit (JBool False))\<rparr>"
  let ?e = "addClass ''tracked'' (elems live 1)"
  let ?l = "(resolved no_options (defaults live) ?e)\<lparr>l_name := ''click.track''\<rparr>"
  let ?l' = "(resolved ?off (defaults live) ?e)\<lparr>l_name := ''click.track''\<rparr>"
  have h: "\<not> hasClass ''tracked'' (elems live 1)"
    by simp
  have on: "truthy_setting (s_skip_internal (extend_track (defaults live) no_options))"
    and off: "\<not> truthy_setting (s_skip_internal (extend_track (defaults live) ?off))"
    by (simp_all add: no_options_def extend_track_def track_defaults_def)
  have same_host: "hostname (elems (attached opts 1 live) 1) = Some (loc_hostname (host (attached opts 1 live)))" for opts
    by (simp add: internal_link_def addClass_def page_def)
  have st: "snd (track opts [1] live) = attached opts 1 live" for opts
    by (simp add: track_def each_unmarked_head)
  have name: "handlers_of (resolved no_options (defaults live) ?e) = [?l]"
    "handlers_of (resolved ?off (defaults live) ?e) = [?l']"
    by (simp_all add: handlers_of_def resolved_def Let_def no_options_def extend_track_def
        track_defaults_def)
  have vals: "value_of (s_category (extend_track (defaults live) ?off)) ?e = JStr ''internal''"
    "value_of (s_action (extend_track (defaults live) ?off)) ?e = JStr ''click''"
    "value_of (s_label (extend_track (defaults live) ?off)) ?e = JStr ''/b''"
    "value_of (s_value (extend_track (defaults live) ?off)) ?e = JNull"
    by (simp_all add: no_options_def extend_track_def track_defaults_def default_category_def
        default_label_def internal_link_def addClass_def page_def)
  from handler_skips_internal [OF h, of no_options] on same_host [of no_options]
  have skipped: "events (snd (handler 1 ?l (attached no_options 1 live)))
      = events (attached no_options 1 live)"
    unfolding Let_def by blast
  from handler_skips_internal [OF h, of ?off] off
  have tracked: "events (snd (handler 1 ?l' (attached ?off 1 live)))
      = events (attached ?off 1 live)
          @ [(Tracker ''UA-1'', value_of (s_category (extend_track (defaults live) ?off)) ?e,
              value_of (s_action (extend_track (defaults live) ?off)) ?e,
              value_of (s_label (extend_track (defaults live) ?off)) ?e,
              value_of (s_value (extend_track (defaults live) ?off)) ?e)]"
    unfolding Let_def by (metis attached_fields(3) live_fields(3))
  show ?thesis
    using h on off same_host [of no_options] skipped tracked st [of no_options] st [of ?off] name vals
    by (simp add: trigger_def)
qed

text \<open>
  C7. Evaluation at attach time. On an element that is not marked, \<^verbatim>\<open>track\<close> calls
  each of \<^verbatim>\<open>category\<close>, \<^verbatim>\<open>action\<close>, \<^verbatim>\<open>label\<close>, \<^verbatim>\<open>value\<close> and \<^verbatim>\<open>event_name\<close>
  that is a function exactly once, in this order, with the element, and takes the others
  as they are; the handler it binds holds the results. A handler that runs calls no
  callback, so no number of events adds a call.
\<close>

theorem settings_evaluated_at_attach:
  assumes "\<not> hasClass ''tracked'' (elems st i)"
  shows
    "(let e = addClass ''tracked'' (elems st i);
          settings = extend_track (defaults st) options;
          st1 = snd (track_element options i st)
      in calls st1 = calls st @ called i (s_category settings) @ called i (s_action settings)
                       @ called i (s_label settings) @ called i (s_value settings)
                       @ called i (s_event_name settings)
         \<and> bound st1 i = bound st i @ handlers_of
              \<lparr> l_name = to_string (value_of (s_event_name settings) e) @ ''.track'',
                 l_settings = settings,
                 l_category = value_of (s_category settings) e,
                 l_action = value_of (s_action settings) e,
                 l_label = value_of (s_label settings) e,
                 l_value = value_of (s_value settings) e,
                 l_message = message_of (value_of (s_category settings) e) (value_of (s_action settings) e)
                               (value_of (s_label settings) e) (value_of (s_value settings) e) \<rparr>
         \<and> (\<forall>l st'. calls (snd (handler i l st')) = calls st')
         \<and> (\<forall>name k. calls ((trigger i name ^^ k) st1) = calls st1))"
  using assms
  by (simp add: track_element_unmarked Let_def calls_attached evaluated_def resolved_def calls_triggers)

theorem settings_evaluated_at_attach_witness:
  "\<not> hasClass ''tracked'' (elems live 0)
   \<and> calls (snd (track_element (no_options\<lparr>o_label := Some label_callback\<rparr>) 0 live))
       = [(''defaults.category'', 0), (''page.label'', 0)]
   \<and> map l_label (bound (snd (track_element (no_options\<lparr>o_label := Some label_callback\<rparr>) 0 live)) 0)
       = [JStr ''to http://other.org/a'']
   \<and> calls ((trigger 0 ''click.track'' ^^ 3)
               (snd (track_element (no_options\<lparr>o_label := Some label_callback\<rparr>) 0 live)))
       = [(''defaults.category'', 0), (''page.label'', 0)]"
proof -
  let ?o = "no_options\<lparr>o_label := Some label_callback\<rparr>"
  let ?s = "extend_track (defaults live) ?o"
  let ?e = "addClass ''tracked'' (elems live 0)"
  have h: "\<not> hasClass ''tracked'' (elems live 0)"
    by simp
  note t = settings_evaluated_at_attach [OF h, of ?o, unfolded Let_def]
  from t have c: "calls (snd (track_element ?o 0 live))
      = calls live @ called 0 (s_category ?s) @ called 0 (s_action ?s) @ called 0 (s_label ?s)
          @ called 0 (s_value ?s) @ called 0 (s_event_name ?s)"
    by blast
  have w: "bind_words (to_string (value_of (s_event_name ?s) ?e) @ ''.track'') = [''click.track'']"
    by (simp add: no_options_def extend_track_def track_defaults_def)
  from t w have b: "map l_label (bound (snd (track_element ?o 0 live)) 0)
      = map l_label (bound live 0) @ [value_of (s_label ?s) ?e]"
    by (simp add: handlers_of_def)
  from t have k: "calls ((trigger 0 ''click.track'' ^^ 3) (snd (track_element ?o 0 live)))
      = calls (snd (track_element ?o 0 live))"
    by blast
  have s: "s_category ?s = Callback ''defaults.category'' (default_category ''example.com'')"
    "s_action ?s = Lit (JStr ''click'')" "s_label ?s = label_callback"
    "s_value ?s = Lit JNull" "s_event_name ?s = Lit (JStr ''click'')"
    by (simp_all add: no_options_def extend_track_def track_defaults_def page_def label_callback_def)
  have v: "value_of label_callback ?e = JStr ''to http://other.org/a''"
    by (simp add: label_callback_def external_link_def addClass_def)
  show ?thesis
    using h c b k s v by (simp add: label_callback_def)
qed

subsection \<open>The debug option\<close>

text \<open>
  Two states that differ at most in the \<^verbatim>\<open>debug\<close> property of the settings their
  listeners captured stay so under every step, with the same trace: nothing reads that
  property.
\<close>

lemma extend_track_debug:
  "extend_track d (options\<lparr>o_debug := dbg\<rparr>) = (extend_track d options)\<lparr>s_debug := extend_field (s_debug d) dbg\<rparr>"
  by (simp add: extend_track_def)

lemma resolved_debug:
  "blank_debug (resolved (options\<lparr>o_debug := dbg\<rparr>) d e) = blank_debug (resolved options d e)"
  by (simp add: resolved_def blank_debug_def extend_track_debug Let_def)

lemma l_message_blank [simp]: "l_message (blank_debug l) = l_message l"
  by (simp add: blank_debug_def)

lemma blank_debug_handlers_of: "map blank_debug (handlers_of l) = handlers_of (blank_debug l)"
  by (simp add: handlers_of_def blank_debug_def)

lemma attached_same:
  assumes "same_but_debug st st'"
  shows "same_but_debug (attached options i st) (attached (options\<lparr>o_debug := dbg\<rparr>) i st')"
proof -
  have m: "l_message (resolved (options\<lparr>o_debug := dbg\<rparr>) d e) = l_message (resolved options d e)" for d e
    using arg_cong [OF resolved_debug [where options=options and dbg=dbg and d=d and e=e], of l_message] by simp
  have n: "event_name_of (options\<lparr>o_debug := dbg\<rparr>) d e = event_name_of options d e" for d e
    by (simp add: event_name_of_def extend_track_debug)
  have c: "evaluated (extend_track d (options\<lparr>o_debug := dbg\<rparr>)) i = evaluated (extend_track d options) i" for d
    by (simp add: evaluated_def extend_track_debug)
  from assms show ?thesis
    by (simp add: same_but_debug_def attached_def Let_def m n c resolved_debug logging_def
        blank_debug_handlers_of)
qed

lemma each_same:
  "same_but_debug st st' \<Longrightarrow>
     same_but_debug (each (track_element options) this st)
                    (each (track_element (options\<lparr>o_debug := dbg\<rparr>)) this st')"
proof (induction this arbitrary: st st')
  case Nil
  then show ?case by simp
next
  case (Cons j rest)
  from Cons.prems have e: "elems st' = elems st" by (simp add: same_but_debug_def)
  show ?case
  proof (cases "hasClass ''tracked'' (elems st j)")
    case True
    with Cons.prems e show ?thesis by (simp add: each_marked_head)
  next
    case False
    with Cons.IH [OF attached_same [OF Cons.prems]] e show ?thesis
      by (simp add: each_unmarked_head)
  qed
qed

lemma blank_debug_eqD:
  assumes "blank_debug l = blank_debug l'"
  shows "l_name l = l_name l'" "l_category l = l_category l'" "l_action l = l_action l'"
    "l_label l = l_label l'" "l_value l = l_value l'" "l_message l = l_message l'"
    "s_skip_internal (l_settings l) = s_skip_internal (l_settings l')"
proof -
  show "l_name l = l_name l'"
    using arg_cong [OF assms, of l_name] by (simp add: blank_debug_def)
  show "l_category l = l_category l'"
    using arg_cong [OF assms, of l_category] by (simp add: blank_debug_def)
  show "l_action l = l_action l'"
    using arg_cong [OF assms, of l_action] by (simp add: blank_debug_def)
  show "l_label l = l_label l'"
    using arg_cong [OF assms, of l_label] by (simp add: blank_debug_def)
  show "l_value l = l_value l'"
    using arg_cong [OF assms, of l_value] by (simp add: blank_debug_def)
  show "l_message l = l_message l'"
    using arg_cong [OF assms, of l_message] by (simp add: blank_debug_def)
  show "s_skip_internal (l_settings l) = s_skip_internal (l_settings l')"
    using arg_cong [OF assms, of "\<lambda>x. s_skip_internal (l_settings x)"] by (simp add: blank_debug_def)
qed

lemma same_but_debug_emit:
  "same_but_debug st st' \<Longrightarrow> same_but_debug (emit x st) (emit x st')"
  by (simp add: same_but_debug_def)

lemma same_but_debug_debug:
  "same_but_debug st st' \<Longrightarrow> same_but_debug (debug m st) (debug m st')"
  by (simp add: same_but_debug_def logging_def)

lemma same_but_debug_trackEvent:
  "same_but_debug st st' \<Longrightarrow> same_but_debug (trackEvent c a l v st) (trackEvent c a l v st')"
proof -
  assume s: "same_but_debug st st'"
  then have p: "pageTracker st = pageTracker st'"
    by (simp add: same_but_debug_def)
  show ?thesis
    by (cases "pageTracker st'")
       (simp_all add: trackEvent_def p same_but_debug_debug [OF s] same_but_debug_emit [OF s])
qed

lemma handler_same:
  assumes "same_but_debug st st'" and "blank_debug l = blank_debug l'"
  shows "same_but_debug (snd (handler i l st)) (snd (handler i l' st'))"
proof -
  from assms(1) have "elems st = elems st'" "host st = host st'"
    by (simp_all add: same_but_debug_def)
  with assms(1) blank_debug_eqD [OF assms(2)] show ?thesis
    by (simp add: handler_def Let_def same_but_debug_debug same_but_debug_trackEvent)
qed

lemma handlers_same:
  "same_but_debug st st' \<Longrightarrow> map blank_debug ls = map blank_debug ls' \<Longrightarrow>
     same_but_debug (fold (\<lambda>l s. snd (handler i l s)) (filter (\<lambda>l. l_name l = name) ls) st)
                    (fold (\<lambda>l s. snd (handler i l s)) (filter (\<lambda>l. l_name l = name) ls') st')"
proof (induction ls arbitrary: ls' st st')
  case Nil
  then show ?case by simp
next
  case (Cons l ls)
  then obtain l' rest where ls': "ls' = l' # rest" and l: "blank_debug l = blank_debug l'"
    and rest: "map blank_debug ls = map blank_debug rest"
    by (cases ls') auto
  from blank_debug_eqD(1) [OF l] have n: "l_name l = l_name l'" .
  show ?case
  proof (cases "l_name l = name")
    case True
    from Cons.IH [OF handler_same [OF Cons.prems(1) l] rest] True n ls'
    show ?thesis by simp
  next
    case False
    from Cons.IH [OF Cons.prems(1) rest] False n ls'
    show ?thesis by simp
  qed
qed

lemma trigger_same:
  assumes "same_but_debug st st'"
  shows "same_but_debug (trigger i name st) (trigger i name st')"
proof -
  from assms have "map blank_debug (bound st i) = map blank_debug (bound st' i)"
    by (simp add: same_but_debug_def)
  from handlers_same [OF assms this] show ?thesis
    by (simp add: trigger_def)
qed

lemma same_but_debug_refl: "same_but_debug st st"
  by (simp add: same_but_debug_def)

lemma each_same_options:
  "same_but_debug st st' \<Longrightarrow>
     same_but_debug (each (track_element options) this st) (each (track_element options) this st')"
  using each_same [of st st' options this "o_debug options"] by simp

lemma perform_same:
  "same_but_debug st st' \<Longrightarrow> same_but_debug (perform a st) (perform a st')"
  by (cases a) (simp_all add: track_def each_same_options trigger_same)

lemma run_same:
  "same_but_debug st st' \<Longrightarrow> same_but_debug (run acts st) (run acts st')"
  unfolding run_def
  by (induction acts arbitrary: st st') (simp_all add: perform_same)

text \<open>With logging off nothing reaches the console.\<close>

lemma each_quiet:
  "\<not> logging st \<Longrightarrow>
     \<not> logging (each (track_element options) this st)
     \<and> console (each (track_element options) this st) = console st"
proof (induction this arbitrary: st)
  case Nil
  then show ?case by simp
next
  case (Cons j rest)
  show ?case
  proof (cases "hasClass ''tracked'' (elems st j)")
    case True
    with Cons.prems show ?thesis by (simp add: each_marked_head)
  next
    case False
    from Cons.prems have "\<not> logging (attached options j st)" by simp
    from Cons.IH [OF this] False Cons.prems show ?thesis
      by (simp add: each_unmarked_head)
  qed
qed

lemma handler_quiet:
  "\<not> logging st \<Longrightarrow>
     \<not> logging (snd (handler i l st)) \<and> console (snd (handler i l st)) = console st"
  by (cases "pageTracker st") (simp_all add: handler_def Let_def trackEvent_def logging_def console_def)

lemma handlers_quiet:
  "\<not> logging st \<Longrightarrow>
     \<not> logging (fold (\<lambda>l s. snd (handler i l s)) ls st)
     \<and> console (fold (\<lambda>l s. snd (handler i l s)) ls st) = console st"
proof (induction ls arbitrary: st)
  case Nil
  then show ?case by simp
next
  case (Cons l ls)
  from handler_quiet [OF Cons.prems, of i l] Cons.IH [of "snd (handler i l st)"]
  show ?case by simp
qed

lemma perform_quiet:
  "\<not> logging st \<Longrightarrow> \<not> logging (perform a st) \<and> console (perform a st) = console st"
  by (cases a) (simp_all add: track_def each_quiet trigger_def handlers_quiet)

lemma run_quiet:
  "\<not> logging st \<Longrightarrow> \<not> logging (run acts st) \<and> console (run acts st) = console st"
  unfolding run_def
proof (induction acts arbitrary: st)
  case Nil
  then show ?case by simp
next
  case (Cons a acts)
  from perform_quiet [OF Cons.prems, of a] Cons.IH [of "perform a st"]
  show ?case by simp
qed

text \<open>
  C10. The \<^verbatim>\<open>debug\<close> option of a call is inert. Two calls of \<^verbatim>\<open>track\<close> that differ only
  in \<^verbatim>\<open>options.debug\<close> leave the same trace (console lines included), and so does
  everything the page does afterwards; and while \<^verbatim>\<open>$.fn.track.defaults.debug\<close> is falsy
  the console receives nothing, whatever \<^verbatim>\<open>options.debug\<close> is.
\<close>

theorem options_debug_is_inert:
  "effects (run acts (snd (track (options\<lparr>o_debug := dbg\<rparr>) this st)))
     = effects (run acts (snd (track options this st)))
   \<and> (\<not> truthy_setting (s_debug (defaults st)) \<longrightarrow>
        console (run acts (snd (track (options\<lparr>o_debug := dbg\<rparr>) this st))) = console st)"
proof -
  have "same_but_debug (snd (track options this st)) (snd (track (options\<lparr>o_debug := dbg\<rparr>) this st))"
    by (simp add: track_def each_same same_but_debug_refl)
  from run_same [OF this, of acts]
  have "effects (run acts (snd (track (options\<lparr>o_debug := dbg\<rparr>) this st)))
     = effects (run acts (snd (track options this st)))"
    by (simp add: same_but_debug_def)
  moreover have "console (run acts (snd (track (options\<lparr>o_debug := dbg\<rparr>) this st))) = console st"
    if "\<not> truthy_setting (s_debug (defaults st))"
  proof -
    from that have q: "\<not> logging st" by (simp add: logging_def)
    from each_quiet [OF q, of "options\<lparr>o_debug := dbg\<rparr>" this]
    have "\<not> logging (snd (track (options\<lparr>o_debug := dbg\<rparr>) this st))"
      and "console (snd (track (options\<lparr>o_debug := dbg\<rparr>) this st)) = console st"
      by (simp_all add: track_def)
    with run_quiet [of "snd (track (options\<lparr>o_debug := dbg\<rparr>) this st)" acts]
    show ?thesis by simp
  qed
  ultimately show ?thesis by blast
qed

theorem options_debug_is_inert_witness:
  "\<not> truthy_setting (s_debug (defaults fresh))
   \<and> s_debug (extend_track (defaults fresh) (no_options\<lparr>o_debug := Some (Lit (JBool True))\<rparr>))
       = Lit (JBool True)
   \<and> console (run [DoTrigger 0 ''click.track'']
                 (snd (track (no_options\<lparr>o_debug := Some (Lit (JBool True))\<rparr>) [0, 1] fresh))) = []
   \<and> effects (run [DoTrigger 0 ''click.track'']
                 (snd (track (no_options\<lparr>o_debug := Some (Lit (JBool True))\<rparr>) [0, 1] fresh)))
       = effects (run [DoTrigger 0 ''click.track''] (snd (track no_options [0, 1] fresh)))"
  using options_debug_is_inert [where acts = "[DoTrigger 0 ''click.track'']" and options = no_options
      and dbg = "Some (Lit (JBool True))" and this = "[0, 1]" and st = fresh]
  by (simp add: track_defaults_def extend_track_def no_options_def)

end
